theory Spec2Isabelle
  imports Main "HOL-Library.Sublist"
begin

section \<open>Strings and JSON values\<close>

text \<open>
  The ICD server is TypeScript: \<^verbatim>\<open>client.ts\<close> (class \<^verbatim>\<open>WHOICDClient\<close>) talks to the WHO ICD-API,
  \<^verbatim>\<open>handlers.ts\<close> dispatches the tool's actions. This section models the JavaScript
  library operations the two files call: number to string conversion, \<^verbatim>\<open>Array.join\<close>,
  \<^verbatim>\<open>String.startsWith\<close>, \<^verbatim>\<open>String.replace\<close> with a string pattern, truthiness, \<^verbatim>\<open>String(v)\<close>
  and \<^verbatim>\<open>JSON.stringify\<close>. Numbers are integers throughout (status codes, counts, seconds,
  milliseconds); fractional JSON numbers are outside the model.
\<close>

text \<open>The decimal digit \<open>d\<close>, for \<open>d < 10\<close>.\<close>

definition digit_char :: "nat \<Rightarrow> char" where
  "digit_char d = ''0123456789'' ! d"

function decimal :: "nat \<Rightarrow> string" where
  "decimal n = (if n < 10 then [digit_char n] else decimal (n div 10) @ [digit_char (n mod 10)])"
  by pat_completeness auto
termination
  by (relation "measure id") auto

declare decimal.simps [simp del]

text \<open>\<^verbatim>\<open>String(n)\<close> and \<^verbatim>\<open>`${n}`\<close> for an integer \<open>n\<close>.\<close>

definition number_text :: "int \<Rightarrow> string" where
  "number_text i = (if i < 0 then CHR ''-'' # decimal (nat (- i)) else decimal (nat i))"

fun join :: "string \<Rightarrow> string list \<Rightarrow> string" where
  "join sep [] = []"
| "join sep [x] = x"
| "join sep (x # y # ys) = x @ sep @ join sep (y # ys)"

definition startsWith :: "string \<Rightarrow> string \<Rightarrow> bool" where
  "startsWith s p = prefix p s"

text \<open>\<^verbatim>\<open>s.replace(pat, rep)\<close> with a string pattern replaces the first occurrence only.\<close>

fun replace_first :: "string \<Rightarrow> string \<Rightarrow> string \<Rightarrow> string" where
  "replace_first pat rep [] = (if pat = [] then rep else [])"
| "replace_first pat rep (c # cs) =
     (if prefix pat (c # cs) then rep @ drop (length pat) (c # cs)
      else c # replace_first pat rep cs)"

datatype json =
    JNull
  | JBool bool
  | JNum int
  | JStr string
  | JArr "json list"
  | JObj "(string \<times> json) list"

text \<open>
  A property read \<^verbatim>\<open>v.k\<close> on a value that is not \<^verbatim>\<open>null\<close>: the member of an object, and
  \<^verbatim>\<open>undefined\<close> (here \<open>None\<close>) on everything else. None of the property names the source
  reads is a built-in property of a string, number, boolean or array. A read on \<^verbatim>\<open>null\<close>
  throws a TypeError; the callers below test for \<open>JNull\<close> before the first read.
\<close>

fun js_get :: "json \<Rightarrow> string \<Rightarrow> json option" where
  "js_get (JObj kvs) k = map_of kvs k"
| "js_get _ k = None"

text \<open>\<^verbatim>\<open>typeof v === "object" && v !== null\<close>: objects and arrays.\<close>

fun is_object :: "json \<Rightarrow> bool" where
  "is_object (JObj _) = True"
| "is_object (JArr _) = True"
| "is_object _ = False"

fun js_truthy :: "json \<Rightarrow> bool" where
  "js_truthy JNull = False"
| "js_truthy (JBool b) = b"
| "js_truthy (JNum n) = (n \<noteq> 0)"
| "js_truthy (JStr s) = (s \<noteq> [])"
| "js_truthy (JArr _) = True"
| "js_truthy (JObj _) = True"

text \<open>A possibly undefined value: \<open>None\<close> is \<^verbatim>\<open>undefined\<close>, which is falsy.\<close>

fun truthy :: "json option \<Rightarrow> bool" where
  "truthy None = False"
| "truthy (Some v) = js_truthy v"

definition js_or :: "json option \<Rightarrow> json option \<Rightarrow> json option" where
  "js_or a b = (if truthy a then a else b)"

text \<open>\<^verbatim>\<open>String(v)\<close>: an array is its elements joined by commas, \<^verbatim>\<open>null\<close> elements empty.\<close>

fun js_String :: "json \<Rightarrow> string" where
  "js_String JNull = ''null''"
| "js_String (JBool b) = (if b then ''true'' else ''false'')"
| "js_String (JNum n) = number_text n"
| "js_String (JStr s) = s"
| "js_String (JArr xs) = join '','' (map (\<lambda>x. if x = JNull then [] else js_String x) xs)"
| "js_String (JObj kvs) = ''[object Object]''"

fun js_String_opt :: "json option \<Rightarrow> string" where
  "js_String_opt None = ''undefined''"
| "js_String_opt (Some v) = js_String v"

definition hex_digit :: "nat \<Rightarrow> char" where
  "hex_digit n = ''0123456789abcdef'' ! n"

definition json_escape :: "char \<Rightarrow> string" where
  "json_escape c =
     (if c = CHR 0x22 then [CHR 0x5C, CHR 0x22]
      else if c = CHR 0x5C then [CHR 0x5C, CHR 0x5C]
      else if c = CHR 0x08 then [CHR 0x5C, CHR ''b'']
      else if c = CHR 0x0C then [CHR 0x5C, CHR ''f'']
      else if c = CHR 0x0A then [CHR 0x5C, CHR ''n'']
      else if c = CHR 0x0D then [CHR 0x5C, CHR ''r'']
      else if c = CHR 0x09 then [CHR 0x5C, CHR ''t'']
      else if (of_char c :: nat) < 32
        then [CHR 0x5C, CHR ''u'', CHR ''0'', CHR ''0'',
              hex_digit ((of_char c) div 16), hex_digit ((of_char c) mod 16)]
      else [c])"

definition json_quote :: "string \<Rightarrow> string" where
  "json_quote s = [CHR 0x22] @ concat (map json_escape s) @ [CHR 0x22]"

text \<open>
  \<^verbatim>\<open>JSON.stringify\<close> with the gap string \<open>gap\<close> at the current indentation \<open>ind\<close>:
  \<^verbatim>\<open>JSON.stringify(v)\<close> is \<open>stringify [] [] v\<close>, and \<^verbatim>\<open>JSON.stringify(v, null, 2)\<close> is
  \<open>stringify ''  '' [] v\<close>.
\<close>

fun stringify :: "string \<Rightarrow> string \<Rightarrow> json \<Rightarrow> string" where
  "stringify gap ind JNull = ''null''"
| "stringify gap ind (JBool b) = (if b then ''true'' else ''false'')"
| "stringify gap ind (JNum n) = number_text n"
| "stringify gap ind (JStr s) = json_quote s"
| "stringify gap ind (JArr xs) =
     (if xs = [] then ''[]''
      else if gap = [] then ''['' @ join '','' (map (stringify gap (ind @ gap)) xs) @ '']''
      else ''['' @ [CHR 0x0A] @ (ind @ gap)
           @ join ('','' @ [CHR 0x0A] @ (ind @ gap)) (map (stringify gap (ind @ gap)) xs)
           @ [CHR 0x0A] @ ind @ '']'')"
| "stringify gap ind (JObj kvs) =
     (if kvs = [] then ''{}''
      else if gap = []
        then ''{'' @ join '','' (map (\<lambda>(k, v). json_quote k @ '':'' @ stringify gap (ind @ gap) v) kvs)
             @ ''}''
      else ''{'' @ [CHR 0x0A] @ (ind @ gap)
           @ join ('','' @ [CHR 0x0A] @ (ind @ gap))
               (map (\<lambda>(k, v). json_quote k @ '': '' @ stringify gap (ind @ gap) v) kvs)
           @ [CHR 0x0A] @ ind @ ''}'')"

definition JSON_stringify :: "json \<Rightarrow> string" where
  "JSON_stringify v = stringify [] [] v"

definition JSON_stringify_2 :: "json \<Rightarrow> string" where
  "JSON_stringify_2 v = stringify ''  '' [] v"

text \<open>
  The TypeScript types of the source (casts such as \<^verbatim>\<open>data.code as string\<close>, type arguments
  such as \<^verbatim>\<open>apiRequest<{ stemId?: string }>\<close>) are erased at run time: a value of another
  type passes through unchanged. The model does the same, so the fields that the source
  copies from the service's JSON hold JSON values. \<^verbatim>\<open>a || b\<close> with a defined \<open>b\<close>:
\<close>

definition or_else :: "json option \<Rightarrow> json \<Rightarrow> json" where
  "or_else a b = (case a of None \<Rightarrow> b | Some v \<Rightarrow> if js_truthy v then v else b)"

text \<open>
  What \<^verbatim>\<open>for (const x of v)\<close> iterates over: the elements of an array and the characters
  of a string; any other value is not iterable and the loop throws a TypeError. A \<open>char\<close>
  stands for one character of the JavaScript string (strings are taken from the Basic
  Multilingual Plane, where code units and code points agree).
\<close>

fun for_of :: "json \<Rightarrow> json list option" where
  "for_of (JArr xs) = Some xs"
| "for_of (JStr s) = Some (map (\<lambda>c. JStr [c]) s)"
| "for_of _ = None"

text \<open>
  The parameters of the tool are strings and numbers: the zod schema \<^verbatim>\<open>ICDParams\<close> checks
  them before \<^verbatim>\<open>handleAction\<close> runs. \<^verbatim>\<open>a || b\<close> on an optional string: \<open>a\<close> when it is present
  and not empty.
\<close>

fun str_or :: "string option \<Rightarrow> string \<Rightarrow> string" where
  "str_or None b = b"
| "str_or (Some a) b = (if a = [] then b else a)"

fun str_or_undefined :: "string option \<Rightarrow> string option \<Rightarrow> string option" where
  "str_or_undefined None b = b"
| "str_or_undefined (Some a) b = (if a = [] then b else Some a)"

section \<open>The client's state and the world it talks to\<close>

text \<open>
  Every \<^verbatim>\<open>throw\<close> of the source and every rejected promise is a value \<open>Inl e\<close>. The
  dispatcher's \<^verbatim>\<open>catch\<close> reads \<^verbatim>\<open>error.message\<close>, which all three kinds carry.
\<close>

datatype error = Error string | TypeError string | SyntaxError string

fun message :: "error \<Rightarrow> string" where
  "message (Error m) = m"
| "message (TypeError m) = m"
| "message (SyntaxError m) = m"

text \<open>
  A response of \<^verbatim>\<open>fetch\<close>: its status, its body as \<^verbatim>\<open>response.text()\<close> gives it, and its body
  as \<^verbatim>\<open>response.json()\<close> gives it (\<open>Inl m\<close> when the body is not JSON of the expected type and
  \<^verbatim>\<open>json()\<close> rejects with a SyntaxError of message \<open>m\<close>). \<open>Rejected m\<close> is a \<^verbatim>\<open>fetch\<close> that
  rejects with a TypeError (a network failure).
\<close>

record 'a response =
  status :: nat
  body_text :: string
  body_json :: "string + 'a"

definition ok :: "'a response \<Rightarrow> bool" where
  "ok r = (200 \<le> status r \<and> status r \<le> 299)"

datatype 'a fetch_result = Rejected string | Responded "'a response"

text \<open>The token endpoint's JSON, \<^verbatim>\<open>{ access_token: string; expires_in: number }\<close>.\<close>

record token_grant =
  access_token :: string
  expires_in :: int

text \<open>What \<^verbatim>\<open>apiRequest\<close> sends: the URL, the query parameters and the headers that vary.\<close>

record request =
  req_url :: string
  req_params :: "(string \<times> string) list option"
  req_authorization :: string
  req_language :: string

text \<open>
  The state is the fields of the \<^verbatim>\<open>WHOICDClient\<close> object (the first seven) and the
  environment. \<open>clock\<close> gives the value of each successive \<^verbatim>\<open>Date.now()\<close> call, in
  milliseconds; \<open>token_endpoint k\<close> is the answer to the \<open>k\<close>-th request to the token
  endpoint and \<open>api_endpoint k\<close> the answer to the \<open>k\<close>-th request to the API, both counted
  from zero. \<open>auth_calls\<close> counts the requests to the token endpoint and \<open>api_log\<close>
  records the requests to the API, so that a network call shows in the state.
\<close>

record world =
  clientId :: string
  clientSecret :: string
  icd10Release :: string
  icd11Release :: string
  language :: string
  accessToken :: "string option"
  tokenExpiry :: int
  clock :: "nat \<Rightarrow> int"
  clock_reads :: nat
  token_endpoint :: "nat \<Rightarrow> token_grant fetch_result"
  auth_calls :: nat
  api_endpoint :: "nat \<Rightarrow> json fetch_result"
  api_log :: "request list"

definition API_BASE_URL :: string where
  "API_BASE_URL = ''https://id.who.int''"

definition Date_now :: "world \<Rightarrow> int \<times> world" where
  "Date_now w = (clock w (clock_reads w), w\<lparr>clock_reads := clock_reads w + 1\<rparr>)"

section \<open>Token manager\<close>

definition authenticate :: "world \<Rightarrow> (error + unit) \<times> world" where
  "authenticate w =
     (let w1 = w\<lparr>auth_calls := auth_calls w + 1\<rparr> in
      case token_endpoint w (auth_calls w) of
        Rejected m \<Rightarrow> (Inl (TypeError m), w1)
      | Responded r \<Rightarrow>
          if \<not> ok r
          then (Inl (Error (''Authentication failed: '' @ decimal (status r) @ '' - ''
                            @ body_text r)), w1)
          else (case body_json r of
                  Inl m \<Rightarrow> (Inl (SyntaxError m), w1)
                | Inr data \<Rightarrow>
                    (let w2 = w1\<lparr>accessToken := Some (access_token data)\<rparr>;
                         (now, w3) = Date_now w2
                     in (Inr (), w3\<lparr>tokenExpiry := now + (expires_in data - 300) * 1000\<rparr>))))"

text \<open>
  The condition \<^verbatim>\<open>!this.accessToken || Date.now() >= this.tokenExpiry\<close>: \<^verbatim>\<open>!this.accessToken\<close>
  holds for \<^verbatim>\<open>null\<close> and for the empty string, and \<^verbatim>\<open>||\<close> reads the clock only when its left
  operand is false.
\<close>

definition token_stale :: "world \<Rightarrow> bool \<times> world" where
  "token_stale w =
     (case accessToken w of
        None \<Rightarrow> (True, w)
      | Some t \<Rightarrow>
          if t = [] then (True, w)
          else (let (now, w1) = Date_now w in (now \<ge> tokenExpiry w1, w1)))"

text \<open>\<^verbatim>\<open>ensureToken\<close> returns \<^verbatim>\<open>this.accessToken!\<close>, the field as it is after the refresh.\<close>

definition ensureToken :: "world \<Rightarrow> (error + string option) \<times> world" where
  "ensureToken w =
     (case token_stale w of
        (True, w1) \<Rightarrow>
          (case authenticate w1 of
             (Inl e, w2) \<Rightarrow> (Inl e, w2)
           | (Inr u, w2) \<Rightarrow> (Inr (accessToken w2), w2))
      | (False, w1) \<Rightarrow> (Inr (accessToken w1), w1))"

section \<open>Authenticated requests\<close>

text \<open>
  \<^verbatim>\<open>apiRequest\<close> calls itself on a 401 with nothing that counts the attempts, so it is a
  partial function: \<open>None\<close> is a call that never returns. The template
  \<^verbatim>\<open>`Bearer ${token}`\<close> renders \<^verbatim>\<open>null\<close> as the text \<^verbatim>\<open>null\<close>.
\<close>

definition bearer :: "string option \<Rightarrow> string" where
  "bearer token = ''Bearer '' @ (case token of None \<Rightarrow> ''null'' | Some t \<Rightarrow> t)"

definition send :: "request \<Rightarrow> world \<Rightarrow> json fetch_result \<times> world" where
  "send req w = (api_endpoint w (length (api_log w)), w\<lparr>api_log := api_log w @ [req]\<rparr>)"

text \<open>What \<^verbatim>\<open>apiRequest\<close> makes of a response that is not a 401.\<close>

definition read_response :: "json response \<Rightarrow> error + json" where
  "read_response r =
     (if status r = 429 then Inl (Error ''Rate limit exceeded. Please try again later.'')
      else if \<not> ok r
        then Inl (Error (''API request failed: '' @ decimal (status r) @ '' - ''
                         @ body_text r))
      else (case body_json r of
              Inl m \<Rightarrow> Inl (SyntaxError m)
            | Inr data \<Rightarrow> Inr data))"

partial_function (option) apiRequest ::
  "string \<Rightarrow> (string \<times> string) list option \<Rightarrow> world \<Rightarrow> ((error + json) \<times> world) option"
where
  "apiRequest endpoint params w =
     (case ensureToken w of
        (Inl e, w1) \<Rightarrow> Some (Inl e, w1)
      | (Inr token, w1) \<Rightarrow>
          (case send \<lparr>req_url = API_BASE_URL @ endpoint, req_params = params,
                      req_authorization = bearer token, req_language = language w1\<rparr> w1 of
             (Rejected m, w2) \<Rightarrow> Some (Inl (TypeError m), w2)
           | (Responded r, w2) \<Rightarrow>
               if status r = 401 then apiRequest endpoint params (w2\<lparr>accessToken := None\<rparr>)
               else Some (read_response r, w2)))"

declare apiRequest.simps [code]

section \<open>Entity normalizer\<close>

text \<open>
  The records of \<^verbatim>\<open>types.ts\<close>. A field that the source fills with a value of the service's
  JSON without converting it is a JSON value here; a field that goes through \<^verbatim>\<open>String(...)\<close>
  is a string.
\<close>

record ICDEntity =
  e_code :: json
  e_title :: string
  e_definition :: "string option"
  e_longDefinition :: "string option"
  e_inclusions :: "json list option"
  e_exclusions :: "json list option"
  e_codingNote :: "string option"
  e_parent :: "json option"
  e_children :: "json list option"
  e_uri :: "json option"
  e_classKind :: "json option"
  e_browserUrl :: "json option"

record ICDSearchResult =
  sr_code :: json
  sr_title :: json
  sr_score :: "json option"
  sr_uri :: json
  sr_chapter :: "json option"

record ICDChapter =
  ch_code :: json
  ch_title :: string
  ch_uri :: json

text \<open>
  The title: \<^verbatim>\<open>if (typeof title === "object" && title !== null)
  title = title["@value"] || JSON.stringify(title)\<close>.
\<close>

definition unwrap_title :: "json option \<Rightarrow> json option" where
  "unwrap_title x =
     (case x of
        None \<Rightarrow> None
      | Some v \<Rightarrow>
          if is_object v then js_or (js_get v ''@value'') (Some (JStr (JSON_stringify v)))
          else Some v)"

text \<open>Definition, long definition and coding note: the same without the fallback.\<close>

definition unwrap_value :: "json option \<Rightarrow> json option" where
  "unwrap_value x =
     (case x of
        None \<Rightarrow> None
      | Some v \<Rightarrow> if is_object v then js_get v ''@value'' else Some v)"

text \<open>\<^verbatim>\<open>x ? String(x) : undefined\<close>\<close>

definition String_if_truthy :: "json option \<Rightarrow> string option" where
  "String_if_truthy x = (if truthy x then Some (js_String_opt x) else None)"

text \<open>The callback of \<^verbatim>\<open>inclusionData.map\<close> and \<^verbatim>\<open>data.exclusion.map\<close>.\<close>

definition label_of :: "json \<Rightarrow> json" where
  "label_of i =
     (if is_object i
      then (case js_get i ''label'' of
              None \<Rightarrow> JStr (JSON_stringify i)
            | Some label \<Rightarrow>
                if is_object label
                then or_else (js_get label ''@value'') (JStr (JSON_stringify i))
                else or_else (Some label) (JStr (JSON_stringify i)))
      else JStr (js_String i))"

definition parseEntity :: "json \<Rightarrow> error + ICDEntity" where
  "parseEntity data =
     (if data = JNull
      then Inl (TypeError ''Cannot read properties of null (reading 'code')'')
      else
        let code = or_else (js_get data ''code'')
                     (or_else (js_get data ''theCode'')
                        (or_else (js_get data ''codeRange'') (JStr [])));
            title = unwrap_title (js_get data ''title'');
            definition = unwrap_value (js_get data ''definition'');
            longDefinition = unwrap_value (js_get data ''longDefinition'');
            inclusionData = js_or (js_get data ''inclusion'') (js_get data ''indexTerm'');
            inclusions = (case inclusionData of
                            Some (JArr xs) \<Rightarrow> Some (map label_of xs)
                          | _ \<Rightarrow> None);
            exclusions = (case js_get data ''exclusion'' of
                            Some (JArr xs) \<Rightarrow> Some (map label_of xs)
                          | _ \<Rightarrow> None);
            codingNote = unwrap_value (js_get data ''codingNote'');
            parent = (case js_get data ''parent'' of
                        Some (JArr (x # xs)) \<Rightarrow> Some x
                      | Some (JStr s) \<Rightarrow> Some (JStr s)
                      | _ \<Rightarrow> None);
            children = (case js_get data ''child'' of
                          Some (JArr xs) \<Rightarrow> Some xs
                        | Some (JStr s) \<Rightarrow> Some [JStr s]
                        | _ \<Rightarrow> None);
            browserUrl = js_get data ''browserUrl''
        in Inr \<lparr>e_code = code,
                e_title = js_String_opt (js_or title (Some (JStr []))),
                e_definition = String_if_truthy definition,
                e_longDefinition = String_if_truthy longDefinition,
                e_inclusions = inclusions,
                e_exclusions = exclusions,
                e_codingNote = String_if_truthy codingNote,
                e_parent = parent,
                e_children = children,
                e_uri = js_or (js_get data ''@id'') (js_or (js_get data ''id'') None),
                e_classKind = js_get data ''classKind'',
                e_browserUrl = browserUrl\<rparr>)"

section \<open>Client operations\<close>

text \<open>
  Each operation is an \<^verbatim>\<open>async\<close> method: it returns \<open>None\<close> when a request it awaits never
  returns, and otherwise its outcome (\<open>Inl\<close> a rejection, \<open>Inr\<close> the value; \<^verbatim>\<open>null\<close> is
  \<open>Inr None\<close>) with the state it leaves. \<^verbatim>\<open>console.warn\<close> is not modelled.
\<close>

text \<open>The relative path that \<^verbatim>\<open>getEntityByUri\<close> requests for a URI.\<close>

definition endpoint_of_uri :: "string \<Rightarrow> string" where
  "endpoint_of_uri uri =
     (let cleanUri = (if startsWith uri ''http://''
                      then replace_first ''http://'' ''https://'' uri else uri)
      in replace_first API_BASE_URL [] cleanUri)"

text \<open>
  \<^verbatim>\<open>uri.startsWith("http://")\<close> stands before the \<^verbatim>\<open>try\<close>: for a value that is not a string it
  throws a TypeError, which the \<^verbatim>\<open>async\<close> method returns as a rejection, and no request is
  made.
\<close>

definition getEntityByUri ::
  "json \<Rightarrow> world \<Rightarrow> ((error + ICDEntity option) \<times> world) option" where
  "getEntityByUri uri w =
     (case uri of
        JStr s \<Rightarrow>
          (case apiRequest (endpoint_of_uri s) None w of
             None \<Rightarrow> None
           | Some (Inl e, w1) \<Rightarrow> Some (Inr None, w1)
           | Some (Inr data, w1) \<Rightarrow>
               (case parseEntity data of
                  Inl e \<Rightarrow> Some (Inr None, w1)
                | Inr entity \<Rightarrow> Some (Inr (Some entity), w1)))
      | JNull \<Rightarrow>
          Some (Inl (TypeError ''Cannot read properties of null (reading 'startsWith')''), w)
      | _ \<Rightarrow> Some (Inl (TypeError ''uri.startsWith is not a function''), w))"

definition getICD10Code ::
  "string \<Rightarrow> world \<Rightarrow> ((error + ICDEntity option) \<times> world) option" where
  "getICD10Code code w =
     (case apiRequest (''/icd/release/10/'' @ icd10Release w @ ''/'' @ code) None w of
        None \<Rightarrow> None
      | Some (Inl e, w1) \<Rightarrow> Some (Inr None, w1)
      | Some (Inr data, w1) \<Rightarrow>
          (case parseEntity data of
             Inl e \<Rightarrow> Some (Inr None, w1)
           | Inr entity \<Rightarrow> Some (Inr (Some entity), w1)))"

text \<open>
  \<^verbatim>\<open>return this.getEntityByUri(codeinfo.stemId)\<close> is not awaited inside the \<^verbatim>\<open>try\<close>, so the
  outcome of \<open>getEntityByUri\<close> is passed on as it is, a rejection too.
\<close>

definition getICD11Code ::
  "string \<Rightarrow> world \<Rightarrow> ((error + ICDEntity option) \<times> world) option" where
  "getICD11Code code w =
     (case apiRequest (''/icd/release/11/'' @ icd11Release w @ ''/mms/codeinfo/'' @ code) None w of
        None \<Rightarrow> None
      | Some (Inl e, w1) \<Rightarrow> Some (Inr None, w1)
      | Some (Inr codeinfo, w1) \<Rightarrow>
          if codeinfo = JNull then Some (Inr None, w1)
          else (case js_get codeinfo ''stemId'' of
                  None \<Rightarrow> Some (Inr None, w1)
                | Some stemId \<Rightarrow>
                    if \<not> js_truthy stemId then Some (Inr None, w1)
                    else getEntityByUri stemId w1))"

text \<open>
  The loop of the two chapter listings; its \<^verbatim>\<open>try { ... } catch { }\<close> skips a chapter
  whose fetch fails.
\<close>

fun chapters_loop ::
  "json list \<Rightarrow> ICDChapter list \<Rightarrow> world \<Rightarrow> (ICDChapter list \<times> world) option" where
  "chapters_loop [] chapters w = Some (chapters, w)"
| "chapters_loop (uri # uris) chapters w =
     (case getEntityByUri uri w of
        None \<Rightarrow> None
      | Some (Inl e, w1) \<Rightarrow> chapters_loop uris chapters w1
      | Some (Inr None, w1) \<Rightarrow> chapters_loop uris chapters w1
      | Some (Inr (Some chapterData), w1) \<Rightarrow>
          chapters_loop uris
            (chapters @ [\<lparr>ch_code = e_code chapterData, ch_title = e_title chapterData,
                           ch_uri = uri\<rparr>]) w1)"

text \<open>
  The body that \<^verbatim>\<open>getICD10Chapters\<close> and \<^verbatim>\<open>getICD11Chapters\<close> share, for the path of the
  release: \<^verbatim>\<open>if (data.child) for (const uri of data.child) ...\<close>.
\<close>

definition get_chapters ::
  "string \<Rightarrow> world \<Rightarrow> ((error + ICDChapter list) \<times> world) option" where
  "get_chapters endpoint w =
     (case apiRequest endpoint None w of
        None \<Rightarrow> None
      | Some (Inl e, w1) \<Rightarrow> Some (Inl e, w1)
      | Some (Inr data, w1) \<Rightarrow>
          if data = JNull
          then Some (Inl (TypeError ''Cannot read properties of null (reading 'child')''), w1)
          else (case js_get data ''child'' of
                  None \<Rightarrow> Some (Inr [], w1)
                | Some child \<Rightarrow>
                    if \<not> js_truthy child then Some (Inr [], w1)
                    else (case for_of child of
                            None \<Rightarrow> Some (Inl (TypeError ''data.child is not iterable''), w1)
                          | Some uris \<Rightarrow>
                              (case chapters_loop uris [] w1 of
                                 None \<Rightarrow> None
                               | Some (chapters, w2) \<Rightarrow> Some (Inr chapters, w2)))))"

definition getICD10Chapters :: "world \<Rightarrow> ((error + ICDChapter list) \<times> world) option" where
  "getICD10Chapters w = get_chapters (''/icd/release/10/'' @ icd10Release w) w"

definition getICD11Chapters :: "world \<Rightarrow> ((error + ICDChapter list) \<times> world) option" where
  "getICD11Chapters w = get_chapters (''/icd/release/11/'' @ icd11Release w @ ''/mms'') w"

text \<open>The loop of the two child listings; nothing is caught here.\<close>

fun children_loop ::
  "json list \<Rightarrow> ICDEntity list \<Rightarrow> world \<Rightarrow> ((error + ICDEntity list) \<times> world) option" where
  "children_loop [] children w = Some (Inr children, w)"
| "children_loop (childUri # uris) children w =
     (case getEntityByUri childUri w of
        None \<Rightarrow> None
      | Some (Inl e, w1) \<Rightarrow> Some (Inl e, w1)
      | Some (Inr None, w1) \<Rightarrow> children_loop uris children w1
      | Some (Inr (Some child), w1) \<Rightarrow> children_loop uris (children @ [child]) w1)"

text \<open>
  What follows \<^verbatim>\<open>const entity = await this.getICD1xCode(code)\<close> in both child listings:
  \<^verbatim>\<open>if (!entity || !entity.children) return []\<close>, then the loop over
  \<^verbatim>\<open>entity.children.slice(0, 20)\<close>.
\<close>

definition children_of ::
  "((error + ICDEntity option) \<times> world) option
     \<Rightarrow> ((error + ICDEntity list) \<times> world) option" where
  "children_of looked_up =
     (case looked_up of
        None \<Rightarrow> None
      | Some (Inl e, w1) \<Rightarrow> Some (Inl e, w1)
      | Some (Inr None, w1) \<Rightarrow> Some (Inr [], w1)
      | Some (Inr (Some entity), w1) \<Rightarrow>
          (case e_children entity of
             None \<Rightarrow> Some (Inr [], w1)
           | Some uris \<Rightarrow> children_loop (take 20 uris) [] w1))"

definition getICD10Children ::
  "string \<Rightarrow> world \<Rightarrow> ((error + ICDEntity list) \<times> world) option" where
  "getICD10Children code w = children_of (getICD10Code code w)"

definition getICD11Children ::
  "string \<Rightarrow> world \<Rightarrow> ((error + ICDEntity list) \<times> world) option" where
  "getICD11Children code w = children_of (getICD11Code code w)"

text \<open>
  \<^verbatim>\<open>xs.slice(0, n)\<close>: the first \<open>n\<close> elements, and for a negative \<open>n\<close> all but the last
  \<open>- n\<close>.
\<close>

definition slice0 :: "int \<Rightarrow> 'a list \<Rightarrow> 'a list" where
  "slice0 n xs = (if n < 0 then take (length xs - nat (- n)) xs else take (nat n) xs)"

text \<open>The body of the loop of \<^verbatim>\<open>searchICD11\<close>; reading a field of a \<^verbatim>\<open>null\<close> hit throws.\<close>

definition search_hit :: "json \<Rightarrow> error + ICDSearchResult" where
  "search_hit item =
     (if item = JNull
      then Inl (TypeError ''Cannot read properties of null (reading 'theCode')'')
      else Inr \<lparr>sr_code = or_else (js_get item ''theCode'') (JStr []),
                sr_title = or_else (js_get item ''title'') (JStr []),
                sr_score = js_get item ''score'',
                sr_uri = or_else (js_get item ''id'') (JStr []),
                sr_chapter = js_get item ''chapter''\<rparr>)"

fun search_loop :: "json list \<Rightarrow> ICDSearchResult list \<Rightarrow> error + ICDSearchResult list" where
  "search_loop [] results = Inr results"
| "search_loop (item # items) results =
     (case search_hit item of
        Inl e \<Rightarrow> Inl e
      | Inr r \<Rightarrow> search_loop items (results @ [r]))"

text \<open>The query parameters of a search; \<^verbatim>\<open>if (chapterFilter)\<close> skips an empty filter.\<close>

definition search_params :: "string \<Rightarrow> string option \<Rightarrow> (string \<times> string) list" where
  "search_params query chapterFilter =
     [(''q'', query), (''useFlexisearch'', ''true''), (''flatResults'', ''true''),
      (''highlightingEnabled'', ''false'')]
     @ (case chapterFilter of
          None \<Rightarrow> []
        | Some c \<Rightarrow> if c = [] then [] else [(''chapterFilter'', c)])"

text \<open>
  The hits the loop of \<^verbatim>\<open>searchICD11\<close> runs over:
  \<^verbatim>\<open>(data.destinationEntities || []).slice(0, maxResults)\<close>. An array and a string have a
  \<^verbatim>\<open>slice\<close>, and the loop then takes the elements or the characters; on any other truthy
  value the call of \<^verbatim>\<open>slice\<close> throws.
\<close>

definition sliced_entities :: "json \<Rightarrow> int \<Rightarrow> error + json list" where
  "sliced_entities data maxResults =
     (case or_else (js_get data ''destinationEntities'') (JArr []) of
        JArr xs \<Rightarrow> Inr (slice0 maxResults xs)
      | JStr s \<Rightarrow> Inr (map (\<lambda>c. JStr [c]) (slice0 maxResults s))
      | _ \<Rightarrow> Inl (TypeError ''entities.slice is not a function''))"

text \<open>The parameter \<^verbatim>\<open>maxResults: number = 10\<close> is \<open>None\<close> when the caller leaves it out.\<close>

definition searchICD11 ::
  "string \<Rightarrow> int option \<Rightarrow> string option \<Rightarrow> world
     \<Rightarrow> ((error + ICDSearchResult list) \<times> world) option" where
  "searchICD11 query maxResults chapterFilter w =
     (case apiRequest (''/icd/release/11/'' @ icd11Release w @ ''/mms/search'')
             (Some (search_params query chapterFilter)) w of
        None \<Rightarrow> None
      | Some (Inl e, w1) \<Rightarrow> Some (Inl e, w1)
      | Some (Inr data, w1) \<Rightarrow>
          if data = JNull
          then Some (Inl (TypeError
                 ''Cannot read properties of null (reading 'destinationEntities')''), w1)
          else (case sliced_entities data (case maxResults of None \<Rightarrow> 10 | Some n \<Rightarrow> n) of
                  Inl e \<Rightarrow> Some (Inl e, w1)
                | Inr items \<Rightarrow> Some (search_loop items [], w1)))"

section \<open>Action handlers\<close>

record ToolResult =
  content :: "string list"
  isError :: "bool option"

text \<open>
  \<open>content\<close> holds the \<^verbatim>\<open>text\<close> of each item (every item has \<^verbatim>\<open>type: "text"\<close>); \<open>isError\<close> is
  \<open>None\<close> when the result has no such field. The parameters are the fields of \<^verbatim>\<open>ICDParams\<close>.
\<close>

record ICDParams =
  p_action :: string
  p_code :: "string option"
  p_query :: "string option"
  p_version :: "string option"
  p_chapter :: "string option"
  p_max_results :: "int option"
  p_path :: "string option"

text \<open>A template literal \<^verbatim>\<open>`${v}`\<close> renders a value as \<^verbatim>\<open>String(v)\<close> does.\<close>

definition more_items :: "json list \<Rightarrow> string list" where
  "more_items xs =
     map (\<lambda>x. ''  - '' @ js_String x) (take 10 xs)
     @ (if length xs > 10 then [''  - ... and '' @ decimal (length xs - 10) @ '' more'']
        else [])"

definition formatEntity :: "ICDEntity \<Rightarrow> string \<Rightarrow> string" where
  "formatEntity entity version =
     join ''\<newline>''
      ([''**'' @ js_String (e_code entity) @ ''**: '' @ e_title entity]
       @ (case e_definition entity of
            None \<Rightarrow> []
          | Some d \<Rightarrow> if d = [] then [] else [''\<newline>**Definition:** '' @ d])
       @ (case e_longDefinition entity of
            None \<Rightarrow> []
          | Some l \<Rightarrow>
              if l \<noteq> [] \<and> Some l \<noteq> e_definition entity then [''\<newline>**Details:** '' @ l]
              else [])
       @ (case e_codingNote entity of
            None \<Rightarrow> []
          | Some n \<Rightarrow> if n = [] then [] else [''\<newline>**Coding Note:** '' @ n])
       @ (case e_inclusions entity of
            None \<Rightarrow> []
          | Some incs \<Rightarrow>
              if length incs > 0 then [''\<newline>**Includes:**''] @ more_items incs else [])
       @ (case e_exclusions entity of
            None \<Rightarrow> []
          | Some excs \<Rightarrow>
              if length excs > 0 then [''\<newline>**Excludes:**''] @ more_items excs else [])
       @ (case e_browserUrl entity of
            None \<Rightarrow> []
          | Some u \<Rightarrow> if js_truthy u then [''\<newline>**Browser:** '' @ js_String u] else [])
       @ [''\<newline>_ICD-'' @ version @ ''_''])"

definition handleLookup ::
  "string \<Rightarrow> string \<Rightarrow> world \<Rightarrow> ((error + ToolResult) \<times> world) option" where
  "handleLookup code version w =
     (case (if version = ''10'' then getICD10Code code w else getICD11Code code w) of
        None \<Rightarrow> None
      | Some (Inl e, w1) \<Rightarrow> Some (Inl e, w1)
      | Some (Inr None, w1) \<Rightarrow>
          Some (Inr \<lparr>content =
                       [''ICD-'' @ version @ '' code '' @ [CHR 0x27] @ code @ [CHR 0x27]
                        @ '' not found.\<newline>\<newline>Try searching: {\"action\": \"search\", \"query\": \"...\", \"version\": \"''
                        @ version @ ''\"}''],
                     isError = None\<rparr>, w1)
      | Some (Inr (Some entity), w1) \<Rightarrow>
          Some (Inr \<lparr>content = [formatEntity entity version], isError = None\<rparr>, w1))"

definition handleSearch ::
  "string \<Rightarrow> int \<Rightarrow> string option \<Rightarrow> world \<Rightarrow> ((error + ToolResult) \<times> world) option" where
  "handleSearch query maxResults chapter w =
     (case searchICD11 query (Some maxResults) chapter w of
        None \<Rightarrow> None
      | Some (Inl e, w1) \<Rightarrow> Some (Inl e, w1)
      | Some (Inr results, w1) \<Rightarrow>
          if length results = 0
          then Some (Inr \<lparr>content =
                            [''No ICD-11 codes found for '' @ [CHR 0x27] @ query @ [CHR 0x27]
                             @ ''. Try different search terms.''],
                          isError = None\<rparr>, w1)
          else Some (Inr \<lparr>content =
                 [join ''\<newline>''
                   ([''**ICD-11 Search Results for '' @ [CHR 0x27] @ query @ [CHR 0x27]
                     @ '':**\<newline>'']
                    @ map (\<lambda>(i, result). decimal (i + 1) @ ''. **'' @ js_String (sr_code result)
                                            @ ''**: '' @ js_String (sr_title result))
                        (enumerate 0 results)
                    @ [''\<newline>Use {\"action\": \"lookup\", \"code\": \"...\"} for full details.''])],
                 isError = None\<rparr>, w1))"

definition handleChapters ::
  "string \<Rightarrow> world \<Rightarrow> ((error + ToolResult) \<times> world) option" where
  "handleChapters version w =
     (case (if version = ''10'' then getICD10Chapters w else getICD11Chapters w) of
        None \<Rightarrow> None
      | Some (Inl e, w1) \<Rightarrow> Some (Inl e, w1)
      | Some (Inr chapters, w1) \<Rightarrow>
          if length chapters = 0
          then Some (Inr \<lparr>content = [''Could not retrieve ICD-'' @ version @ '' chapters.''],
                          isError = None\<rparr>, w1)
          else Some (Inr \<lparr>content =
                 [join ''\<newline>''
                   ([''**ICD-'' @ version @ '' Chapters:**\<newline>'']
                    @ map (\<lambda>chapter. ''- **'' @ js_String (ch_code chapter) @ ''**: '' @ ch_title chapter)
                        chapters
                    @ [''\<newline>Use {\"action\": \"children\", \"code\": \"...\"} to explore a chapter.''])],
                 isError = None\<rparr>, w1))"

definition handleChildren ::
  "string \<Rightarrow> string \<Rightarrow> world \<Rightarrow> ((error + ToolResult) \<times> world) option" where
  "handleChildren code version w =
     (case (if version = ''10'' then getICD10Children code w else getICD11Children code w) of
        None \<Rightarrow> None
      | Some (Inl e, w1) \<Rightarrow> Some (Inl e, w1)
      | Some (Inr children, w1) \<Rightarrow>
          if length children = 0
          then Some (Inr \<lparr>content =
                            [''No child codes found for '' @ [CHR 0x27] @ code @ [CHR 0x27]
                             @ ''. This may be a leaf-level code.''],
                          isError = None\<rparr>, w1)
          else Some (Inr \<lparr>content =
                 [join ''\<newline>''
                   ([''**Child codes under '' @ code @ '' (ICD-'' @ version @ ''):**\<newline>'']
                    @ map (\<lambda>child. ''- **'' @ js_String (e_code child) @ ''**: '' @ e_title child) children)],
                 isError = None\<rparr>, w1))"

definition handleApi :: "string \<Rightarrow> world \<Rightarrow> ((error + ToolResult) \<times> world) option" where
  "handleApi path w =
     (if \<not> startsWith path ''/''
      then Some (Inr \<lparr>content = [''Path must start with /''], isError = Some True\<rparr>, w)
      else (case apiRequest path None w of
              None \<Rightarrow> None
            | Some (Inl e, w1) \<Rightarrow>
                Some (Inr \<lparr>content = [''API Error: '' @ message e], isError = Some True\<rparr>, w1)
            | Some (Inr result, w1) \<Rightarrow>
                Some (Inr \<lparr>content = [JSON_stringify_2 result], isError = None\<rparr>, w1)))"

definition handleHelp :: ToolResult where
  "handleHelp =
     \<lparr>content =
       [join ''\<newline>''
       [''# ICD MCP Server'',
        [],
        ''Supports both **ICD-10** and **ICD-11** via the WHO ICD-API.'',
        [],
        ''## Actions'',
        [],
        ''**lookup** - Get code details'',
        ''  {\"action\": \"lookup\", \"code\": \"A00\"}              (ICD-11 default)'',
        ''  {\"action\": \"lookup\", \"code\": \"J18.9\", \"version\": \"10\"}'',
        [],
        ''**search** - Find codes by keyword (ICD-11 only)'',
        ''  {\"action\": \"search\", \"query\": \"pneumonia\"}'',
        ''  {\"action\": \"search\", \"query\": \"diabetes\", \"chapter\": \"05\"}'',
        [],
        ''**chapters** - List chapters'',
        ''  {\"action\": \"chapters\"}'',
        ''  {\"action\": \"chapters\", \"version\": \"10\"}'',
        [],
        ''**children** - Get subcodes'',
        ''  {\"action\": \"children\", \"code\": \"BA00\"}'',
        [],
        ''**api** - Raw WHO API request'',
        ''  {\"action\": \"api\", \"path\": \"/icd/release/11/2024-01/mms\"}'',
        [],
        ''## ICD-10 vs ICD-11'',
        [],
        ''| Feature | ICD-10 | ICD-11 |'',
        ''|---------|--------|--------|'',
        ''| Lookup | Yes | Yes |'',
        ''| Search | No* | Yes |'',
        ''| Chapters | Yes | Yes |'',
        ''| Children | Yes | Yes |'',
        [],
        ''*ICD-10 search not supported by WHO API'',
        [],
        ''## More Info'',
        ''- ICD-10: https://icd.who.int/browse10'',
        ''- ICD-11: https://icd.who.int/browse11'']],
      isError = None\<rparr>"

text \<open>
  \<open>dispatch\<close> is the body of the \<^verbatim>\<open>try\<close> block of \<^verbatim>\<open>handleAction\<close> and \<open>handleAction\<close> adds its
  \<^verbatim>\<open>catch\<close>. \<^verbatim>\<open>!params.code\<close> holds for a missing field and for the empty string;
  \<^verbatim>\<open>params.max_results || 10\<close> is 10 for a missing field and for 0.
\<close>

fun num_or :: "int option \<Rightarrow> int \<Rightarrow> int" where
  "num_or None d = d"
| "num_or (Some n) d = (if n = 0 then d else n)"

definition dispatch :: "ICDParams \<Rightarrow> world \<Rightarrow> ((error + ToolResult) \<times> world) option" where
  "dispatch params w =
     (let version = str_or (p_version params) ''11'' in
      if p_action params = ''lookup'' then
        (case str_or_undefined (p_code params) None of
           None \<Rightarrow> Some (Inl (Error ''code required for lookup''), w)
         | Some code \<Rightarrow> handleLookup code version w)
      else if p_action params = ''search'' then
        (case str_or_undefined (p_query params) None of
           None \<Rightarrow> Some (Inl (Error ''query required for search''), w)
         | Some query \<Rightarrow>
             if version = ''10''
             then Some (Inr \<lparr>content =
                    [''ICD-10 search is not supported by the WHO API. Use ICD-11 search or lookup by code.\<newline>\<newline>Try: {\"action\": \"search\", \"query\": \"pneumonia\", \"version\": \"11\"}''],
                    isError = Some True\<rparr>, w)
             else handleSearch query (num_or (p_max_results params) 10) (p_chapter params) w)
      else if p_action params = ''chapters'' then handleChapters version w
      else if p_action params = ''children'' then
        (case str_or_undefined (p_code params) None of
           None \<Rightarrow> Some (Inl (Error ''code required for children''), w)
         | Some code \<Rightarrow> handleChildren code version w)
      else if p_action params = ''api'' then
        (case str_or_undefined (p_path params) None of
           None \<Rightarrow> Some (Inl (Error ''path required for api''), w)
         | Some path \<Rightarrow> handleApi path w)
      else if p_action params = ''help'' then Some (Inr handleHelp, w)
      else Some (Inr \<lparr>content = [''Unknown action: '' @ p_action params],
                      isError = Some True\<rparr>, w))"

definition handleAction :: "ICDParams \<Rightarrow> world \<Rightarrow> ((error + ToolResult) \<times> world) option" where
  "handleAction params w =
     (case dispatch params w of
        None \<Rightarrow> None
      | Some (Inl error, w1) \<Rightarrow>
          Some (Inr \<lparr>content = [''Error: '' @ message error], isError = Some True\<rparr>, w1)
      | Some (Inr result, w1) \<Rightarrow> Some (Inr result, w1))"

section \<open>Predicates for stating the properties\<close>

text \<open>
  The API answers every run of requests with something other than a 401 sooner or later:
  from every request number on, some later answer is a rejection or has another status.
\<close>

definition is_401 :: "json fetch_result \<Rightarrow> bool" where
  "is_401 x = (case x of Rejected m \<Rightarrow> False | Responded r \<Rightarrow> status r = 401)"

definition answers_eventually :: "world \<Rightarrow> bool" where
  "answers_eventually w = (\<forall>c. \<exists>n. \<not> is_401 (api_endpoint w (c + n)))"

text \<open>
  The request that \<open>apiRequest\<close> sends first in state \<open>w\<close>, with the token that
  \<open>ensureToken\<close> returns there.
\<close>

definition the_request :: "string \<Rightarrow> (string \<times> string) list option \<Rightarrow> world \<Rightarrow> request" where
  "the_request endpoint params w =
     \<lparr>req_url = API_BASE_URL @ endpoint, req_params = params,
      req_authorization = (case fst (ensureToken w) of Inl e \<Rightarrow> [] | Inr token \<Rightarrow> bearer token),
      req_language = language w\<rparr>"

text \<open>
  The request \<open>apiRequest\<close> sends when it retries with the token \<open>t\<close>, and a token
  endpoint that grants every request: the \<open>j\<close>-th one gets the token \<open>tok j\<close>.
\<close>

definition retry_request ::
  "string \<Rightarrow> (string \<times> string) list option \<Rightarrow> world \<Rightarrow> string \<Rightarrow> request" where
  "retry_request endpoint params w t =
     \<lparr>req_url = API_BASE_URL @ endpoint, req_params = params,
      req_authorization = bearer (Some t), req_language = language w\<rparr>"

definition always_granted :: "world \<Rightarrow> (nat \<Rightarrow> string) \<Rightarrow> bool" where
  "always_granted w tok =
     (\<forall>j. \<exists>r g. token_endpoint w j = Responded r \<and> ok r \<and> body_json r = Inr g
                 \<and> access_token g = tok j)"

text \<open>
  The authentications \<open>a, \<dots>, a + n - 1\<close> are granted, the \<open>j\<close>-th of all with the token
  \<open>tok j\<close>; and the outcome of the \<open>j\<close>-th request to the token endpoint, which depends on
  the answer of the endpoint only.
\<close>

definition grants :: "world \<Rightarrow> (nat \<Rightarrow> string) \<Rightarrow> nat \<Rightarrow> nat \<Rightarrow> bool" where
  "grants w tok a n =
     (\<forall>j<n. \<exists>r g. token_endpoint w (a + j) = Responded r \<and> ok r \<and> body_json r = Inr g
                   \<and> access_token g = tok (a + j))"

definition auth_outcome :: "world \<Rightarrow> nat \<Rightarrow> error + unit" where
  "auth_outcome w j = fst (authenticate (w\<lparr>auth_calls := j\<rparr>))"

section \<open>Example states\<close>

text \<open>
  States for the concrete instances below. \<open>example_world api\<close> is a client that has not
  authenticated yet, a clock that advances one second per reading, a token endpoint that
  grants the \<open>k\<close>-th request the token \<open>token-k\<close> for an hour, and the API answers \<open>api\<close>.
\<close>

definition grant :: "string \<Rightarrow> int \<Rightarrow> token_grant fetch_result" where
  "grant t secs =
     Responded \<lparr>status = 200, body_text = [],
                body_json = Inr \<lparr>access_token = t, expires_in = secs\<rparr>\<rparr>"

definition answer :: "nat \<Rightarrow> json \<Rightarrow> json fetch_result" where
  "answer st j = Responded \<lparr>status = st, body_text = [], body_json = Inr j\<rparr>"

definition example_world :: "(nat \<Rightarrow> json fetch_result) \<Rightarrow> world" where
  "example_world api =
     \<lparr>clientId = ''id'', clientSecret = ''secret'', icd10Release = ''2019'',
      icd11Release = ''2024-01'', language = ''en'', accessToken = None, tokenExpiry = 0,
      clock = (\<lambda>k. 1000 * int k), clock_reads = 0,
      token_endpoint = (\<lambda>k. grant (''token-'' @ decimal k) 3600), auth_calls = 0,
      api_endpoint = api, api_log = []\<rparr>"

definition example_params :: "string \<Rightarrow> ICDParams" where
  "example_params a =
     \<lparr>p_action = a, p_code = None, p_query = None, p_version = None, p_chapter = None,
      p_max_results = None, p_path = None\<rparr>"

text \<open>A world whose network is down: every request to the API is rejected.\<close>

definition offline_world :: world where
  "offline_world = example_world (\<lambda>k. Rejected ''offline'')"

text \<open>A client that holds a token which is valid until the clock shows 5000.\<close>

definition cached_world :: world where
  "cached_world = offline_world\<lparr>accessToken := Some ''cached'', tokenExpiry := 5000\<rparr>"

text \<open>
  A world whose API answers every request with three search hits: two with a code and a
  title, and one with no field at all.
\<close>

definition three_hits :: json where
  "three_hits =
     JObj [(''destinationEntities'',
            JArr [JObj [(''theCode'', JStr ''1A00''), (''title'', JStr ''Cholera'')],
                  JObj [(''theCode'', JStr ''1A01''), (''title'', JStr ''Intestinal infection'')],
                  JObj []])]"

definition search_world :: world where
  "search_world = example_world (\<lambda>k. answer 200 three_hits)"

text \<open>
  Worlds whose API answers the first request, or the first two, with a 401 and every
  later one with a JSON string.
\<close>

definition once_401_world :: world where
  "once_401_world =
     example_world (\<lambda>k. if k < 1 then answer 401 JNull else answer 200 (JStr ''second answer''))"

definition twice_401_world :: world where
  "twice_401_world =
     example_world (\<lambda>k. if k < 2 then answer 401 JNull else answer 200 (JStr ''third answer''))"


definition leaf_world :: world where
  "leaf_world =
     example_world
       (\<lambda>k. if k = 0
            then answer 200 (JObj [(''stemId'', JStr ''http://id.who.int/icd/release/11/2024-01/mms/257068234'')])
            else answer 200 (JObj [(''code'', JStr ''1A00''), (''title'', JObj [(''@value'', JStr ''Cholera'')])]))"

text \<open>A world whose API answers every request with a 401.\<close>

definition always_401_world :: world where
  "always_401_world = example_world (\<lambda>k. answer 401 JNull)"

text \<open>
  A world whose token endpoint grants the first request and refuses every later one, and
  whose API answers every request with a 401.
\<close>

definition revoked_world :: world where
  "revoked_world =
     (example_world (\<lambda>k. answer 401 JNull))
       \<lparr>token_endpoint :=
          (\<lambda>k. if k = 0 then grant ''token-0'' 3600
               else Responded \<lparr>status = 400, body_text = ''invalid_client'',
                               body_json = Inl ''Unexpected token''\<rparr>)\<rparr>"



text \<open>
  A world whose API answers every request with twelve search hits, with the codes
  \<open>H0\<close> to \<open>H11\<close>.
\<close>

definition twelve_hits :: "json list" where
  "twelve_hits =
     map (\<lambda>k. JObj [(''theCode'', JStr (''H'' @ decimal k)), (''title'', JStr ''hit'')]) [0..<12]"

definition crowded_world :: world where
  "crowded_world =
     example_world (\<lambda>k. answer 200 (JObj [(''destinationEntities'', JArr twelve_hits)]))"

section \<open>Frame and termination lemmas\<close>

lemma decimal_digit [simp]: "n < 10 \<Longrightarrow> decimal n = [digit_char n]"
  by (subst decimal.simps) simp

lemma authenticate_frame:
  "api_endpoint (snd (authenticate w)) = api_endpoint w"
  "token_endpoint (snd (authenticate w)) = token_endpoint w"
  "clock (snd (authenticate w)) = clock w"
  "api_log (snd (authenticate w)) = api_log w"
  "language (snd (authenticate w)) = language w"
  "icd10Release (snd (authenticate w)) = icd10Release w"
  "icd11Release (snd (authenticate w)) = icd11Release w"
  "auth_calls (snd (authenticate w)) = auth_calls w + 1"
  by (simp_all add: authenticate_def Date_now_def Let_def split: fetch_result.split sum.split prod.split)

lemma token_stale_cases:
  "snd (token_stale w) = w \<or> snd (token_stale w) = w\<lparr>clock_reads := clock_reads w + 1\<rparr>"
  by (simp add: token_stale_def Date_now_def split: option.split)

lemma token_stale_frame:
  "api_endpoint (snd (token_stale w)) = api_endpoint w"
  "token_endpoint (snd (token_stale w)) = token_endpoint w"
  "clock (snd (token_stale w)) = clock w"
  "api_log (snd (token_stale w)) = api_log w"
  "language (snd (token_stale w)) = language w"
  "icd10Release (snd (token_stale w)) = icd10Release w"
  "icd11Release (snd (token_stale w)) = icd11Release w"
  "auth_calls (snd (token_stale w)) = auth_calls w"
  "accessToken (snd (token_stale w)) = accessToken w"
  "tokenExpiry (snd (token_stale w)) = tokenExpiry w"
  using token_stale_cases [of w] by auto

lemma ensureToken_snd:
  "snd (ensureToken w) =
     (if fst (token_stale w) then snd (authenticate (snd (token_stale w))) else snd (token_stale w))"
  by (simp add: ensureToken_def split: prod.split sum.split bool.split)

lemma ensureToken_frame:
  "api_endpoint (snd (ensureToken w)) = api_endpoint w"
  "token_endpoint (snd (ensureToken w)) = token_endpoint w"
  "clock (snd (ensureToken w)) = clock w"
  "api_log (snd (ensureToken w)) = api_log w"
  "language (snd (ensureToken w)) = language w"
  "icd10Release (snd (ensureToken w)) = icd10Release w"
  "icd11Release (snd (ensureToken w)) = icd11Release w"
  by (simp_all add: ensureToken_snd authenticate_frame token_stale_frame)

lemma apiRequest_unfold:
  "apiRequest endpoint params w =
     (case fst (ensureToken w) of
        Inl e \<Rightarrow> Some (Inl e, snd (ensureToken w))
      | Inr token \<Rightarrow>
          (let w2 = (snd (ensureToken w))\<lparr>api_log := api_log w @ [the_request endpoint params w]\<rparr> in
           case api_endpoint w (length (api_log w)) of
             Rejected m \<Rightarrow> Some (Inl (TypeError m), w2)
           | Responded r \<Rightarrow>
               if status r = 401 then apiRequest endpoint params (w2\<lparr>accessToken := None\<rparr>)
               else Some (read_response r, w2)))"
proof -
  obtain t w1 where e: "ensureToken w = (t, w1)"
    by (cases "ensureToken w")
  have f: "api_endpoint w1 = api_endpoint w" "api_log w1 = api_log w" "language w1 = language w"
    using ensureToken_frame(1,4,5) [of w] e by simp_all
  show ?thesis
  proof (cases t)
    case (Inl err)
    with e show ?thesis by (subst apiRequest.simps) simp
  next
    case (Inr token)
    with e f show ?thesis
      by (subst apiRequest.simps)
         (cases "api_endpoint w (length (api_log w))"; simp add: send_def the_request_def)
  qed
qed

lemma apiRequest_frame:
  assumes "apiRequest endpoint params w = Some y"
  shows "api_endpoint (snd y) = api_endpoint w \<and> token_endpoint (snd y) = token_endpoint w
         \<and> clock (snd y) = clock w \<and> language (snd y) = language w
         \<and> icd10Release (snd y) = icd10Release w \<and> icd11Release (snd y) = icd11Release w"
proof (rule apiRequest.raw_induct [OF _ assms], goal_cases)
  case (1 f endpoint params w y)
  obtain t w1 where e: "ensureToken w = (t, w1)"
    by (cases "ensureToken w")
  have fr: "api_endpoint w1 = api_endpoint w" "token_endpoint w1 = token_endpoint w"
      "clock w1 = clock w" "language w1 = language w"
      "icd10Release w1 = icd10Release w" "icd11Release w1 = icd11Release w"
    using ensureToken_frame [of w] e by simp_all
  show ?case
  proof (cases t)
    case (Inl err)
    with 1(2) e fr show ?thesis by auto
  next
    case (Inr token)
    show ?thesis
    proof (cases "api_endpoint w1 (length (api_log w1))")
      case (Rejected m)
      with 1(2) e fr Inr show ?thesis by (auto simp: send_def)
    next
      case (Responded r)
      show ?thesis
      proof (cases "status r = 401")
        case True
        with 1(2) e Inr Responded
        have "f endpoint params (w1\<lparr>api_log := api_log w1 @
                 [\<lparr>req_url = API_BASE_URL @ endpoint, req_params = params,
                   req_authorization = bearer token, req_language = language w1\<rparr>],
                 accessToken := None\<rparr>) = Some y"
          by (simp add: send_def)
        from 1(1) [OF this] fr show ?thesis by simp
      next
        case False
        with 1(2) e fr Inr Responded show ?thesis by (auto simp: send_def)
      qed
    qed
  qed
qed

lemma apiRequest_returns:
  "\<not> is_401 (api_endpoint w (length (api_log w) + n)) \<Longrightarrow> \<exists>y. apiRequest endpoint params w = Some y"
proof (induction n arbitrary: w)
  case 0
  then show ?case
    by (subst apiRequest_unfold)
       (auto simp: is_401_def Let_def split: sum.split fetch_result.split)
next
  case (Suc n)
  show ?case
  proof (cases "fst (ensureToken w)")
    case (Inl e)
    then show ?thesis by (subst apiRequest_unfold) simp
  next
    case (Inr token)
    show ?thesis
    proof (cases "api_endpoint w (length (api_log w))")
      case (Rejected m)
      with Inr show ?thesis by (subst apiRequest_unfold) (simp add: Let_def)
    next
      case (Responded r)
      show ?thesis
      proof (cases "status r = 401")
        case True
        let ?w = "(snd (ensureToken w))\<lparr>api_log := api_log w @ [the_request endpoint params w],
                     accessToken := None\<rparr>"
        have "\<not> is_401 (api_endpoint ?w (length (api_log ?w) + n))"
          using Suc.prems by (simp add: ensureToken_frame)
        from Suc.IH [OF this] obtain y where "apiRequest endpoint params ?w = Some y" ..
        with Inr Responded True show ?thesis
          by (subst apiRequest_unfold) (simp add: Let_def)
      next
        case False
        with Inr Responded show ?thesis by (subst apiRequest_unfold) (simp add: Let_def)
      qed
    qed
  qed
qed

lemma apiRequest_total:
  assumes "answers_eventually w"
  shows "\<exists>r w'. apiRequest endpoint params w = Some (r, w') \<and> answers_eventually w'
           \<and> icd10Release w' = icd10Release w \<and> icd11Release w' = icd11Release w"
proof -
  from assms obtain n where "\<not> is_401 (api_endpoint w (length (api_log w) + n))"
    unfolding answers_eventually_def by blast
  from apiRequest_returns [OF this] obtain y where y: "apiRequest endpoint params w = Some y" ..
  from apiRequest_frame [OF y] assms have "answers_eventually (snd y)"
    by (simp add: answers_eventually_def)
  with y apiRequest_frame [OF y] show ?thesis by (cases y) auto
qed

lemma getEntityByUri_total:
  assumes "answers_eventually w"
  shows "\<exists>r w'. getEntityByUri uri w = Some (r, w') \<and> answers_eventually w'"
proof (cases "\<exists>s. uri = JStr s")
  case True
  then obtain s where s: "uri = JStr s" ..
  from apiRequest_total [OF assms, of "endpoint_of_uri s" None]
  obtain r w' where "apiRequest (endpoint_of_uri s) None w = Some (r, w')" "answers_eventually w'"
    by blast
  with s show ?thesis
    by (auto simp: getEntityByUri_def split: sum.split)
next
  case False
  with assms show ?thesis
    by (cases uri) (simp_all add: getEntityByUri_def)
qed

lemma getICD10Code_total:
  assumes "answers_eventually w"
  shows "\<exists>r w'. getICD10Code code w = Some (Inr r, w') \<and> answers_eventually w'"
proof -
  from apiRequest_total [OF assms, of "''/icd/release/10/'' @ icd10Release w @ ''/'' @ code" None]
  obtain r w' where "apiRequest (''/icd/release/10/'' @ icd10Release w @ ''/'' @ code) None w = Some (r, w')"
    "answers_eventually w'" by blast
  then show ?thesis
    by (auto simp: getICD10Code_def split: sum.split)
qed

lemma getICD11Code_total:
  assumes "answers_eventually w"
  shows "\<exists>r w'. getICD11Code code w = Some (r, w') \<and> answers_eventually w'"
proof -
  let ?ep = "''/icd/release/11/'' @ icd11Release w @ ''/mms/codeinfo/'' @ code"
  from apiRequest_total [OF assms, of ?ep None]
  obtain r w' where a: "apiRequest ?ep None w = Some (r, w')" "answers_eventually w'" by blast
  show ?thesis
  proof (cases r)
    case (Inl e)
    with a show ?thesis by (simp add: getICD11Code_def)
  next
    case (Inr codeinfo)
    show ?thesis
    proof (cases "codeinfo \<noteq> JNull \<and> (\<exists>v. js_get codeinfo ''stemId'' = Some v \<and> js_truthy v)")
      case True
      then obtain v where v: "js_get codeinfo ''stemId'' = Some v" "js_truthy v" "codeinfo \<noteq> JNull"
        by blast
      from getEntityByUri_total [OF a(2), of v] a(1) Inr v show ?thesis
        by (simp add: getICD11Code_def)
    next
      case False
      with a Inr show ?thesis
        by (auto simp: getICD11Code_def split: option.split)
    qed
  qed
qed

lemma chapters_loop_total:
  "answers_eventually w \<Longrightarrow>
     \<exists>cs w'. chapters_loop uris acc w = Some (cs, w') \<and> answers_eventually w'"
proof (induction uris arbitrary: acc w)
  case Nil
  then show ?case by simp
next
  case (Cons uri uris)
  from getEntityByUri_total [OF Cons.prems, of uri]
  obtain r w1 where g: "getEntityByUri uri w = Some (r, w1)" "answers_eventually w1" by blast
  show ?case
  proof (cases r)
    case (Inl e)
    with g Cons.IH [OF g(2), of acc] show ?thesis by simp
  next
    case (Inr found)
    show ?thesis
    proof (cases found)
      case None
      with Inr g Cons.IH [OF g(2), of acc] show ?thesis by simp
    next
      case (Some cd)
      with Inr g
        Cons.IH [OF g(2), of "acc @ [\<lparr>ch_code = e_code cd, ch_title = e_title cd, ch_uri = uri\<rparr>]"]
      show ?thesis by simp
    qed
  qed
qed

lemma children_loop_total:
  "answers_eventually w \<Longrightarrow>
     \<exists>r w'. children_loop uris acc w = Some (r, w') \<and> answers_eventually w'"
proof (induction uris arbitrary: acc w)
  case Nil
  then show ?case by simp
next
  case (Cons uri uris)
  from getEntityByUri_total [OF Cons.prems, of uri]
  obtain r w1 where g: "getEntityByUri uri w = Some (r, w1)" "answers_eventually w1" by blast
  show ?case
  proof (cases r)
    case (Inl e)
    with g show ?thesis by simp
  next
    case (Inr found)
    show ?thesis
    proof (cases found)
      case None
      with Inr g Cons.IH [OF g(2), of acc] show ?thesis by simp
    next
      case (Some child)
      with Inr g Cons.IH [OF g(2), of "acc @ [child]"] show ?thesis by simp
    qed
  qed
qed

section \<open>Validation in the dispatcher\<close>

text \<open>
  C4. A search request for version 10 that supplies a query (a query that passes
  \<^verbatim>\<open>!params.query\<close>, so a non-empty string) gets an error-flagged result whose text explains
  that the WHO API has no ICD-10 search. The state is returned as it was: no request to
  the token endpoint or to the API is made.
\<close>

theorem search_version_10_is_rejected:
  assumes "p_action p = ''search''" and "p_query p = Some q" and "q \<noteq> []"
    and "p_version p = Some ''10''"
  shows "handleAction p w =
           Some (Inr \<lparr>content =
                   [''ICD-10 search is not supported by the WHO API. Use ICD-11 search or lookup by code.\<newline>\<newline>Try: {\"action\": \"search\", \"query\": \"pneumonia\", \"version\": \"11\"}''],
                   isError = Some True\<rparr>, w)"
  using assms by (simp add: handleAction_def dispatch_def)

theorem search_version_10_is_rejected_witness:
  "handleAction ((example_params ''search'')\<lparr>p_query := Some ''pneumonia'', p_version := Some ''10''\<rparr>)
       offline_world =
     Some (Inr \<lparr>content =
             [''ICD-10 search is not supported by the WHO API. Use ICD-11 search or lookup by code.\<newline>\<newline>Try: {\"action\": \"search\", \"query\": \"pneumonia\", \"version\": \"11\"}''],
             isError = Some True\<rparr>, offline_world)"
  using search_version_10_is_rejected
    [of "(example_params ''search'')\<lparr>p_query := Some ''pneumonia'', p_version := Some ''10''\<rparr>"
        "''pneumonia''" "offline_world"]
  by (simp add: example_params_def)

text \<open>
  C7, as stated, fails for the empty path: the empty string does not start with a slash,
  but \<^verbatim>\<open>!params.path\<close> holds for it, so the dispatcher throws
  \<^verbatim>\<open>path required for api\<close> before \<^verbatim>\<open>handleApi\<close> is reached and the text of the result is
  another one.
\<close>

theorem api_empty_path_counterexample:
  "\<not> startsWith [] ''/''
   \<and> map_option fst (handleAction ((example_params ''api'')\<lparr>p_path := Some []\<rparr>) offline_world) =
       Some (Inr \<lparr>content = [''Error: path required for api''], isError = Some True\<rparr>)"
  by (simp add: handleAction_def dispatch_def example_params_def startsWith_def)

text \<open>
  C7, amended. An api request whose path is not empty and does not start with a slash
  gets the error-flagged result with the text \<^verbatim>\<open>Path must start with /\<close>; an api request with
  the empty path gets the error-flagged result of a missing path. In both cases the state
  is returned as it was, so no network call is made.
\<close>

theorem api_path_without_slash:
  assumes "p_action p = ''api''" and "p_path p = Some path"
  shows "(path \<noteq> [] \<and> \<not> startsWith path ''/'' \<longrightarrow>
            handleAction p w =
              Some (Inr \<lparr>content = [''Path must start with /''], isError = Some True\<rparr>, w))
       \<and> (path = [] \<longrightarrow>
            handleAction p w =
              Some (Inr \<lparr>content = [''Error: path required for api''], isError = Some True\<rparr>, w))"
  using assms by (simp add: handleAction_def dispatch_def handleApi_def)

theorem api_path_without_slash_witness:
  "handleAction ((example_params ''api'')\<lparr>p_path := Some ''mms''\<rparr>) offline_world =
     Some (Inr \<lparr>content = [''Path must start with /''], isError = Some True\<rparr>, offline_world)"
  using api_path_without_slash
    [of "(example_params ''api'')\<lparr>p_path := Some ''mms''\<rparr>" "''mms''" offline_world]
  by (simp add: example_params_def startsWith_def)

section \<open>The title of a normalized entity\<close>

text \<open>
  C2, as stated, fails for the wrapper object \<^verbatim>\<open>{"value": "Cholera"}\<close>: the normalizer reads
  the sub-field \<^verbatim>\<open>@value\<close>, which this object does not have, and falls back to the JSON text
  of the whole object.
\<close>

theorem parseEntity_title_value_counterexample:
  "map_sum id e_title (parseEntity (JObj [(''title'', JObj [(''value'', JStr ''Cholera'')])])) =
     Inr ''{\"value\":\"Cholera\"}''
   \<and> map_sum id e_title (parseEntity (JObj [(''title'', JObj [(''value'', JStr ''Cholera'')])])) \<noteq>
     Inr ''Cholera''"
  by (simp add: parseEntity_def Let_def unwrap_title_def js_or_def JSON_stringify_def
      json_quote_def json_escape_def)

text \<open>
  C2, amended. For every record that is not \<^verbatim>\<open>null\<close> the normalizer yields an entity, and its
  title is: the string itself when the title field is a plain string; the string \<open>s\<close>
  when the title field is an object whose \<^verbatim>\<open>@value\<close> is the non-empty string \<open>s\<close> (so
  \<^verbatim>\<open>{"@value": "Cholera"}\<close> yields \<^verbatim>\<open>Cholera\<close>); the JSON text of the object when it has no
  \<^verbatim>\<open>@value\<close>; and the empty string when the record has no title field. The title is a
  string in every case.
\<close>

theorem parseEntity_title:
  assumes "data \<noteq> JNull"
  shows "\<exists>e. parseEntity data = Inr e
           \<and> (\<forall>s. js_get data ''title'' = Some (JStr s) \<longrightarrow> e_title e = s)
           \<and> (\<forall>obj s. js_get data ''title'' = Some (JObj obj)
                          \<and> map_of obj ''@value'' = Some (JStr s) \<and> s \<noteq> []
                        \<longrightarrow> e_title e = s)
           \<and> (\<forall>obj. js_get data ''title'' = Some (JObj obj) \<and> map_of obj ''@value'' = None
                        \<longrightarrow> e_title e = JSON_stringify (JObj obj))
           \<and> (js_get data ''title'' = None \<longrightarrow> e_title e = [])"
  using assms
  by (simp add: parseEntity_def Let_def unwrap_title_def js_or_def)

theorem parseEntity_title_witness:
  "map_sum id e_title (parseEntity (JObj [(''title'', JObj [(''@value'', JStr ''Cholera'')])])) =
     Inr ''Cholera''
   \<and> map_sum id e_title (parseEntity (JObj [(''title'', JStr ''Cholera'')])) = Inr ''Cholera''
   \<and> map_sum id e_title (parseEntity (JObj [(''code'', JStr ''1A00'')])) = Inr []"
  using parseEntity_title [of "JObj [(''title'', JObj [(''@value'', JStr ''Cholera'')])]"]
    parseEntity_title [of "JObj [(''title'', JStr ''Cholera'')]"]
    parseEntity_title [of "JObj [(''code'', JStr ''1A00'')]"]
  by auto

section \<open>The token cache\<close>

lemma ensureToken_fresh:
  assumes "accessToken w = Some t" and "t \<noteq> []" and "clock w (clock_reads w) < tokenExpiry w"
  shows "ensureToken w = (Inr (Some t), w\<lparr>clock_reads := clock_reads w + 1\<rparr>)"
  using assms by (simp add: ensureToken_def token_stale_def Date_now_def)

lemma token_stale_True:
  assumes "accessToken w = None \<or> accessToken w = Some [] \<or> tokenExpiry w \<le> clock w (clock_reads w)"
  shows "fst (token_stale w) = True"
  using assms by (auto simp: token_stale_def Date_now_def split: option.split)

lemma authenticate_granted:
  assumes "token_endpoint w (auth_calls w) = Responded r" and "ok r" and "body_json r = Inr g"
  shows "authenticate w =
           (Inr (), w\<lparr>auth_calls := auth_calls w + 1, accessToken := Some (access_token g),
                       clock_reads := clock_reads w + 1,
                       tokenExpiry := clock w (clock_reads w) + (expires_in g - 300) * 1000\<rparr>)"
  using assms by (simp add: authenticate_def Date_now_def Let_def)

lemma ensureToken_stale:
  assumes "fst (token_stale w) = True"
  shows "ensureToken w =
           (case authenticate (snd (token_stale w)) of
              (Inl e, w2) \<Rightarrow> (Inl e, w2)
            | (Inr u, w2) \<Rightarrow> (Inr (accessToken w2), w2))"
  using assms by (cases "token_stale w") (simp add: ensureToken_def)

text \<open>
  C3. A cached token (a non-empty string: \<^verbatim>\<open>!this.accessToken\<close> holds for the empty one) whose
  expiry is after the clock reading is returned as it is; the state changes by that one
  clock reading only, so no request to the token endpoint is made. Without a cached
  token, or with the clock at or past the expiry, \<open>ensureToken\<close> makes exactly one
  request to the token endpoint; when that request is granted, the granted token is
  stored and returned, and the expiry is the clock reading taken after the grant plus the
  granted lifetime less 300 seconds, in milliseconds.
\<close>

theorem ensureToken_reuses_or_refreshes:
  "(\<forall>t. accessToken w = Some t \<and> t \<noteq> [] \<and> clock w (clock_reads w) < tokenExpiry w
        \<longrightarrow> ensureToken w = (Inr (Some t), w\<lparr>clock_reads := clock_reads w + 1\<rparr>))
   \<and> (accessToken w = None \<or> accessToken w = Some [] \<or> tokenExpiry w \<le> clock w (clock_reads w)
        \<longrightarrow> auth_calls (snd (ensureToken w)) = auth_calls w + 1
            \<and> (\<forall>r g. token_endpoint w (auth_calls w) = Responded r \<and> ok r \<and> body_json r = Inr g
                  \<longrightarrow> fst (ensureToken w) = Inr (Some (access_token g))
                      \<and> accessToken (snd (ensureToken w)) = Some (access_token g)
                      \<and> tokenExpiry (snd (ensureToken w)) =
                          clock w (clock_reads (snd (ensureToken w)) - 1)
                          + (expires_in g - 300) * 1000))"
proof (intro conjI allI impI)
  fix t
  assume "accessToken w = Some t \<and> t \<noteq> [] \<and> clock w (clock_reads w) < tokenExpiry w"
  then show "ensureToken w = (Inr (Some t), w\<lparr>clock_reads := clock_reads w + 1\<rparr>)"
    by (simp add: ensureToken_fresh)
next
  assume s: "accessToken w = None \<or> accessToken w = Some [] \<or> tokenExpiry w \<le> clock w (clock_reads w)"
  from token_stale_True [OF s] show "auth_calls (snd (ensureToken w)) = auth_calls w + 1"
    by (simp add: ensureToken_snd authenticate_frame token_stale_frame)
next
  fix r g
  assume s: "accessToken w = None \<or> accessToken w = Some [] \<or> tokenExpiry w \<le> clock w (clock_reads w)"
    and g: "token_endpoint w (auth_calls w) = Responded r \<and> ok r \<and> body_json r = Inr g"
  let ?w1 = "snd (token_stale w)"
  from g have "token_endpoint ?w1 (auth_calls ?w1) = Responded r" "ok r" "body_json r = Inr g"
    by (simp_all add: token_stale_frame)
  from authenticate_granted [OF this] ensureToken_stale [OF token_stale_True [OF s]]
  have e: "ensureToken w =
          (Inr (Some (access_token g)),
           ?w1\<lparr>auth_calls := auth_calls ?w1 + 1, accessToken := Some (access_token g),
                clock_reads := clock_reads ?w1 + 1,
                tokenExpiry := clock ?w1 (clock_reads ?w1) + (expires_in g - 300) * 1000\<rparr>)"
    by simp
  show "fst (ensureToken w) = Inr (Some (access_token g))"
    and "accessToken (snd (ensureToken w)) = Some (access_token g)"
    and "tokenExpiry (snd (ensureToken w)) =
           clock w (clock_reads (snd (ensureToken w)) - 1) + (expires_in g - 300) * 1000"
    by (simp_all add: e token_stale_frame)
qed

theorem ensureToken_reuses_or_refreshes_witness:
  "ensureToken cached_world = (Inr (Some ''cached''), cached_world\<lparr>clock_reads := 1\<rparr>)
   \<and> auth_calls (snd (ensureToken offline_world)) = 1
   \<and> fst (ensureToken offline_world) = Inr (Some ''token-0'')
   \<and> tokenExpiry (snd (ensureToken offline_world)) = 3300000"
proof -
  have c: "accessToken cached_world = Some ''cached'' \<and> ''cached'' \<noteq> []
           \<and> clock cached_world (clock_reads cached_world) < tokenExpiry cached_world"
    by (simp add: cached_world_def offline_world_def example_world_def)
  have o: "accessToken offline_world = None"
    by (simp add: offline_world_def example_world_def)
  have g: "token_endpoint offline_world (auth_calls offline_world) =
             Responded \<lparr>status = 200, body_text = [],
                        body_json = Inr \<lparr>access_token = ''token-0'', expires_in = 3600\<rparr>\<rparr>"
    by (simp add: offline_world_def example_world_def grant_def digit_char_def)
  have r: "clock_reads (snd (ensureToken offline_world)) = 1"
    using o by (simp add: ensureToken_snd token_stale_def authenticate_def Date_now_def Let_def g ok_def)
       (simp add: offline_world_def example_world_def)
  have k: "clock offline_world 0 = 0" "auth_calls offline_world = 0"
    by (simp_all add: offline_world_def example_world_def)
  from ensureToken_reuses_or_refreshes [of cached_world] c
  have 1: "ensureToken cached_world = (Inr (Some ''cached''), cached_world\<lparr>clock_reads := 1\<rparr>)"
    by (simp add: cached_world_def offline_world_def example_world_def)
  from ensureToken_reuses_or_refreshes [of offline_world] o g r k
  have 2: "auth_calls (snd (ensureToken offline_world)) = 1
     \<and> fst (ensureToken offline_world) = Inr (Some ''token-0'')
     \<and> tokenExpiry (snd (ensureToken offline_world)) = 3300000"
    by (simp add: ok_def)
  from 1 2 show ?thesis by simp
qed

section \<open>Retrying after a 401\<close>

lemma ensureToken_granted:
  assumes "always_granted w tok"
  shows "\<exists>token. fst (ensureToken w) = Inr token"
proof (cases "fst (token_stale w)")
  case True
  let ?w1 = "snd (token_stale w)"
  from assms obtain r g where "token_endpoint ?w1 (auth_calls ?w1) = Responded r" "ok r"
      "body_json r = Inr g"
    unfolding always_granted_def token_stale_frame by blast
  from authenticate_granted [OF this] ensureToken_stale [of w] True show ?thesis by simp
next
  case False
  then show ?thesis by (cases "token_stale w") (simp add: ensureToken_def)
qed

lemma authenticate_outcome:
  "token_endpoint x = token_endpoint w \<Longrightarrow> fst (authenticate x) = auth_outcome w (auth_calls x)"
  by (simp add: auth_outcome_def authenticate_def Date_now_def Let_def
      split: fetch_result.split sum.split prod.split)

lemma authenticate_failed:
  "fst (authenticate x) = Inl e \<Longrightarrow> authenticate x = (Inl e, x\<lparr>auth_calls := auth_calls x + 1\<rparr>)"
  by (auto simp: authenticate_def Date_now_def Let_def
      split: fetch_result.splits sum.splits prod.splits if_splits)

lemma ensureToken_no_token_failed:
  assumes "accessToken x = None" and "token_endpoint x = token_endpoint w"
    and "auth_outcome w (auth_calls x) = Inl e"
  shows "ensureToken x = (Inl e, x\<lparr>auth_calls := auth_calls x + 1\<rparr>)"
proof -
  from assms(1) have s: "token_stale x = (True, x)" by (simp add: token_stale_def)
  from authenticate_outcome [OF assms(2)] assms(3) have "fst (authenticate x) = Inl e" by simp
  from authenticate_failed [OF this] s show ?thesis by (simp add: ensureToken_def)
qed

lemma ensureToken_no_token_granted:
  assumes "accessToken x = None"
    and "token_endpoint x (auth_calls x) = Responded r" and "ok r" and "body_json r = Inr g"
  shows "fst (ensureToken x) = Inr (Some (access_token g))"
    and "auth_calls (snd (ensureToken x)) = auth_calls x + 1"
proof -
  from assms(1) have s: "token_stale x = (True, x)" by (simp add: token_stale_def)
  from authenticate_granted [OF assms(2,3,4)] s
  show "fst (ensureToken x) = Inr (Some (access_token g))"
    and "auth_calls (snd (ensureToken x)) = auth_calls x + 1"
    by (simp_all add: ensureToken_def)
qed

lemma apiRequest_attempts:
  assumes first: "fst (ensureToken w) = Inr t0"
    and unauth: "\<forall>k<n. is_401 (api_endpoint w (length (api_log w) + k))"
    and gr: "grants w tok (auth_calls (snd (ensureToken w))) n"
  shows "\<exists>wn. api_log wn =
                 api_log w @ the_request endpoint params w
                   # map (\<lambda>k. retry_request endpoint params w
                                  (tok (auth_calls (snd (ensureToken w)) + k))) [0..<n]
             \<and> auth_calls wn = auth_calls (snd (ensureToken w)) + n
             \<and> token_endpoint wn = token_endpoint w \<and> api_endpoint wn = api_endpoint w
             \<and> language wn = language w
             \<and> apiRequest endpoint params w =
                 (case api_endpoint w (length (api_log w) + n) of
                    Rejected m \<Rightarrow> Some (Inl (TypeError m), wn)
                  | Responded r \<Rightarrow>
                      if status r = 401 then apiRequest endpoint params (wn\<lparr>accessToken := None\<rparr>)
                      else Some (read_response r, wn))"
  using unauth gr
proof (induction n)
  case 0
  let ?wn = "(snd (ensureToken w))\<lparr>api_log := api_log w @ [the_request endpoint params w]\<rparr>"
  have "apiRequest endpoint params w =
          (case api_endpoint w (length (api_log w) + 0) of
             Rejected m \<Rightarrow> Some (Inl (TypeError m), ?wn)
           | Responded r \<Rightarrow>
               if status r = 401 then apiRequest endpoint params (?wn\<lparr>accessToken := None\<rparr>)
               else Some (read_response r, ?wn))"
    using first by (subst apiRequest_unfold) (simp add: Let_def)
  then show ?case
    by (intro exI [of _ ?wn]) (simp add: ensureToken_frame)
next
  case (Suc n)
  let ?a = "auth_calls (snd (ensureToken w))"
  let ?L = "length (api_log w)"
  from Suc.prems have u: "\<forall>k<n. is_401 (api_endpoint w (?L + k))"
    and g: "grants w tok ?a n" by (simp_all add: grants_def)
  from Suc.IH [OF u g] obtain wn where wn:
      "api_log wn = api_log w @ the_request endpoint params w
         # map (\<lambda>k. retry_request endpoint params w (tok (?a + k))) [0..<n]"
      "auth_calls wn = ?a + n" "token_endpoint wn = token_endpoint w"
      "api_endpoint wn = api_endpoint w" "language wn = language w"
      "apiRequest endpoint params w =
         (case api_endpoint w (?L + n) of
            Rejected m \<Rightarrow> Some (Inl (TypeError m), wn)
          | Responded r \<Rightarrow>
              if status r = 401 then apiRequest endpoint params (wn\<lparr>accessToken := None\<rparr>)
              else Some (read_response r, wn))"
    by blast
  let ?x = "wn\<lparr>accessToken := None\<rparr>"
  from Suc.prems(1) have "is_401 (api_endpoint w (?L + n))" by simp
  with wn(6) have step: "apiRequest endpoint params w = apiRequest endpoint params ?x"
    by (auto simp: is_401_def split: fetch_result.splits)
  from Suc.prems(2) obtain r g where rg: "token_endpoint w (?a + n) = Responded r" "ok r"
      "body_json r = Inr g" "access_token g = tok (?a + n)"
    unfolding grants_def by blast
  have tx: "token_endpoint ?x (auth_calls ?x) = Responded r"
    using rg(1) wn(2,3) by simp
  have e: "fst (ensureToken ?x) = Inr (Some (tok (?a + n)))"
      "auth_calls (snd (ensureToken ?x)) = ?a + Suc n"
    using ensureToken_no_token_granted [OF _ tx rg(2,3)] rg(4) wn(2) by simp_all
  have q: "the_request endpoint params ?x = retry_request endpoint params w (tok (?a + n))"
    by (simp add: the_request_def [of endpoint params "?x"] retry_request_def e wn(5))
  let ?wn' = "(snd (ensureToken ?x))\<lparr>api_log := api_log wn @ [the_request endpoint params ?x]\<rparr>"
  have len: "length (api_log ?x) = ?L + Suc n"
    using wn(1) by simp
  have "apiRequest endpoint params ?x =
          (case api_endpoint w (?L + Suc n) of
             Rejected m \<Rightarrow> Some (Inl (TypeError m), ?wn')
           | Responded r \<Rightarrow>
               if status r = 401 then apiRequest endpoint params (?wn'\<lparr>accessToken := None\<rparr>)
               else Some (read_response r, ?wn'))"
    using e(1) len wn(4) by (subst apiRequest_unfold) (simp add: Let_def)
  with step have main: "apiRequest endpoint params w =
          (case api_endpoint w (?L + Suc n) of
             Rejected m \<Rightarrow> Some (Inl (TypeError m), ?wn')
           | Responded r \<Rightarrow>
               if status r = 401 then apiRequest endpoint params (?wn'\<lparr>accessToken := None\<rparr>)
               else Some (read_response r, ?wn'))"
    by simp
  have log: "api_log ?wn' = api_log w @ the_request endpoint params w
         # map (\<lambda>k. retry_request endpoint params w (tok (?a + k))) [0..<Suc n]"
    using wn(1) q by simp
  have rest: "auth_calls ?wn' = ?a + Suc n" "token_endpoint ?wn' = token_endpoint w"
      "api_endpoint ?wn' = api_endpoint w" "language ?wn' = language w"
    using e(2) wn(3,4,5) by (simp_all add: ensureToken_frame)
  from log rest main show ?case
    by (intro exI [of _ ?wn']) (simp only: simp_thms)
qed


text \<open>
  C1, as stated, fails at the second consecutive 401: it is handled as the first one was.
  When the API answers 401, 401 and then 200, the request returns the third answer, and
  three requests were sent, each with a token of its own.
\<close>

theorem apiRequest_second_401_counterexample:
  "map_option fst (apiRequest ''/icd/entity'' None twice_401_world) = Some (Inr (JStr ''third answer''))
   \<and> map_option (map req_authorization \<circ> api_log \<circ> snd)
        (apiRequest ''/icd/entity'' None twice_401_world) =
       Some [''Bearer token-0'', ''Bearer token-1'', ''Bearer token-2'']"
  by (rule conjI; code_simp)


text \<open>
  C1, amended. On a 401 the cached token is dropped and the same request (same URL, same
  parameters) is sent again with a token obtained anew, and so for every further 401;
  nothing bounds the number of retries. Let the API answer the first \<open>n\<close> attempts with a
  401. If the first attempt gets no token, its error is the outcome and nothing is sent.
  If every re-authentication is granted, \<open>n + 1\<close> requests are sent, each retry with the
  token of one further authentication, and the outcome is what \<open>apiRequest\<close> makes of the
  next answer when it is a response of another status, and the TypeError of the fetch
  when it is a rejection. If the re-authentication after the \<open>(j + 1)\<close>-th of these 401s
  fails, its error is the outcome, after \<open>j + 1\<close> requests.
\<close>

theorem apiRequest_retries_every_401:
  assumes "\<forall>k<n. is_401 (api_endpoint w (length (api_log w) + k))"
  shows "(\<forall>e. fst (ensureToken w) = Inl e
             \<longrightarrow> apiRequest endpoint params w = Some (Inl e, snd (ensureToken w)))
       \<and> (\<forall>t0. fst (ensureToken w) = Inr t0 \<and> grants w tok (auth_calls (snd (ensureToken w))) n
             \<longrightarrow> (\<exists>w'. api_log w' =
                          api_log w @ the_request endpoint params w
                            # map (\<lambda>k. retry_request endpoint params w
                                           (tok (auth_calls (snd (ensureToken w)) + k))) [0..<n]
                      \<and> auth_calls w' = auth_calls (snd (ensureToken w)) + n
                      \<and> (\<forall>r. api_endpoint w (length (api_log w) + n) = Responded r
                                \<and> status r \<noteq> 401
                              \<longrightarrow> apiRequest endpoint params w = Some (read_response r, w'))
                      \<and> (\<forall>m. api_endpoint w (length (api_log w) + n) = Rejected m
                              \<longrightarrow> apiRequest endpoint params w = Some (Inl (TypeError m), w'))))
       \<and> (\<forall>t0 j e. fst (ensureToken w) = Inr t0 \<and> j < n
                  \<and> grants w tok (auth_calls (snd (ensureToken w))) j
                  \<and> auth_outcome w (auth_calls (snd (ensureToken w)) + j) = Inl e
             \<longrightarrow> (\<exists>w'. apiRequest endpoint params w = Some (Inl e, w')
                      \<and> api_log w' =
                          api_log w @ the_request endpoint params w
                            # map (\<lambda>k. retry_request endpoint params w
                                           (tok (auth_calls (snd (ensureToken w)) + k))) [0..<j]
                      \<and> auth_calls w' = auth_calls (snd (ensureToken w)) + j + 1))"
proof (intro conjI allI impI)
  fix e
  assume "fst (ensureToken w) = Inl e"
  then show "apiRequest endpoint params w = Some (Inl e, snd (ensureToken w))"
    by (subst apiRequest_unfold) simp
next
  fix t0
  assume a: "fst (ensureToken w) = Inr t0 \<and> grants w tok (auth_calls (snd (ensureToken w))) n"
  from apiRequest_attempts [of w t0 n tok endpoint params] a assms
  obtain wn where wn:
      "api_log wn = api_log w @ the_request endpoint params w
         # map (\<lambda>k. retry_request endpoint params w
                        (tok (auth_calls (snd (ensureToken w)) + k))) [0..<n]"
      "auth_calls wn = auth_calls (snd (ensureToken w)) + n"
      "apiRequest endpoint params w =
         (case api_endpoint w (length (api_log w) + n) of
            Rejected m \<Rightarrow> Some (Inl (TypeError m), wn)
          | Responded r \<Rightarrow>
              if status r = 401 then apiRequest endpoint params (wn\<lparr>accessToken := None\<rparr>)
              else Some (read_response r, wn))"
    by blast
  have "\<forall>r. api_endpoint w (length (api_log w) + n) = Responded r \<and> status r \<noteq> 401
            \<longrightarrow> apiRequest endpoint params w = Some (read_response r, wn)"
    using wn(3) by simp
  moreover have "\<forall>m. api_endpoint w (length (api_log w) + n) = Rejected m
            \<longrightarrow> apiRequest endpoint params w = Some (Inl (TypeError m), wn)"
    using wn(3) by simp
  ultimately show "\<exists>w'. api_log w' =
                          api_log w @ the_request endpoint params w
                            # map (\<lambda>k. retry_request endpoint params w
                                           (tok (auth_calls (snd (ensureToken w)) + k))) [0..<n]
                      \<and> auth_calls w' = auth_calls (snd (ensureToken w)) + n
                      \<and> (\<forall>r. api_endpoint w (length (api_log w) + n) = Responded r
                                \<and> status r \<noteq> 401
                              \<longrightarrow> apiRequest endpoint params w = Some (read_response r, w'))
                      \<and> (\<forall>m. api_endpoint w (length (api_log w) + n) = Rejected m
                              \<longrightarrow> apiRequest endpoint params w = Some (Inl (TypeError m), w'))"
    using wn(1,2) by blast
next
  fix t0 j e
  let ?a = "auth_calls (snd (ensureToken w))"
  assume a: "fst (ensureToken w) = Inr t0 \<and> j < n \<and> grants w tok ?a j
             \<and> auth_outcome w (?a + j) = Inl e"
  with assms have u: "\<forall>k<j. is_401 (api_endpoint w (length (api_log w) + k))" by simp
  from apiRequest_attempts [of w t0 j tok endpoint params] a u
  obtain wj where wj:
      "api_log wj = api_log w @ the_request endpoint params w
         # map (\<lambda>k. retry_request endpoint params w (tok (?a + k))) [0..<j]"
      "auth_calls wj = ?a + j" "token_endpoint wj = token_endpoint w"
      "apiRequest endpoint params w =
         (case api_endpoint w (length (api_log w) + j) of
            Rejected m \<Rightarrow> Some (Inl (TypeError m), wj)
          | Responded r \<Rightarrow>
              if status r = 401 then apiRequest endpoint params (wj\<lparr>accessToken := None\<rparr>)
              else Some (read_response r, wj))"
    by blast
  let ?x = "wj\<lparr>accessToken := None\<rparr>"
  from a assms have "is_401 (api_endpoint w (length (api_log w) + j))" by simp
  with wj(4) have step: "apiRequest endpoint params w = apiRequest endpoint params ?x"
    by (auto simp: is_401_def split: fetch_result.splits)
  have "ensureToken ?x = (Inl e, ?x\<lparr>auth_calls := auth_calls ?x + 1\<rparr>)"
    using a wj(2,3) by (intro ensureToken_no_token_failed [of ?x w]) simp_all
  then have "apiRequest endpoint params ?x = Some (Inl e, ?x\<lparr>auth_calls := auth_calls ?x + 1\<rparr>)"
    by (subst apiRequest_unfold) simp
  with step wj(1,2)
  show "\<exists>w'. apiRequest endpoint params w = Some (Inl e, w')
          \<and> api_log w' =
              api_log w @ the_request endpoint params w
                # map (\<lambda>k. retry_request endpoint params w (tok (?a + k))) [0..<j]
          \<and> auth_calls w' = ?a + j + 1"
    by (intro exI [of _ "?x\<lparr>auth_calls := auth_calls ?x + 1\<rparr>"]) simp
qed

theorem apiRequest_retries_every_401_witness:
  "map_option fst (apiRequest ''/icd/entity'' None once_401_world) = Some (Inr (JStr ''second answer''))
   \<and> map_option (api_log \<circ> snd) (apiRequest ''/icd/entity'' None once_401_world) =
       Some [\<lparr>req_url = ''https://id.who.int/icd/entity'', req_params = None,
               req_authorization = ''Bearer token-0'', req_language = ''en''\<rparr>,
             \<lparr>req_url = ''https://id.who.int/icd/entity'', req_params = None,
               req_authorization = ''Bearer token-1'', req_language = ''en''\<rparr>]
   \<and> map_option (auth_calls \<circ> snd) (apiRequest ''/icd/entity'' None once_401_world) = Some 2
   \<and> map_option fst (apiRequest ''/icd/entity'' None revoked_world) =
       Some (Inl (Error ''Authentication failed: 400 - invalid_client''))
   \<and> map_option (length \<circ> api_log \<circ> snd) (apiRequest ''/icd/entity'' None revoked_world) = Some 1
   \<and> map_option fst (apiRequest ''/icd/entity'' None offline_world) =
       Some (Inl (TypeError ''offline''))"
proof -
  let ?tok = "\<lambda>j. ''token-'' @ decimal j"
  let ?r = "\<lparr>status = 200, body_text = [], body_json = Inr (JStr ''second answer'')\<rparr>"
  have n: "accessToken once_401_world = None" "auth_calls once_401_world = 0"
      "api_log once_401_world = []" "language once_401_world = ''en''"
    by (simp_all add: once_401_world_def example_world_def)
  have t: "token_endpoint once_401_world (auth_calls once_401_world) =
             Responded \<lparr>status = 200, body_text = [],
                        body_json = Inr \<lparr>access_token = ''token-0'', expires_in = 3600\<rparr>\<rparr>"
    by (simp add: once_401_world_def example_world_def grant_def digit_char_def)
  have e: "fst (ensureToken once_401_world) = Inr (Some ''token-0'')"
      "auth_calls (snd (ensureToken once_401_world)) = 1"
    using ensureToken_no_token_granted [OF n(1) t] n(2) by (simp_all add: ok_def)
  have g: "grants once_401_world ?tok 1 1"
    by (simp add: grants_def once_401_world_def example_world_def grant_def ok_def)
  have a: "\<forall>k<1. is_401 (api_endpoint once_401_world (length (api_log once_401_world) + k))"
    by (simp add: once_401_world_def example_world_def is_401_def answer_def)
  have b: "api_endpoint once_401_world (length (api_log once_401_world) + 1) = Responded ?r"
    by (simp add: once_401_world_def example_world_def answer_def)
  have rr: "read_response ?r = Inr (JStr ''second answer'')"
    by (simp add: read_response_def ok_def)
  have q0: "the_request ''/icd/entity'' None once_401_world =
             \<lparr>req_url = ''https://id.who.int/icd/entity'', req_params = None,
               req_authorization = ''Bearer token-0'', req_language = ''en''\<rparr>"
    by (simp add: the_request_def e n bearer_def API_BASE_URL_def)
  have h: "fst (ensureToken once_401_world) = Inr (Some ''token-0'')
           \<and> grants once_401_world ?tok (auth_calls (snd (ensureToken once_401_world))) 1"
    using e g by simp
  from apiRequest_retries_every_401
         [OF a, of "''/icd/entity''" None ?tok, THEN conjunct2, THEN conjunct1, rule_format, OF h]
  obtain w' where w': "api_log w' = api_log once_401_world @ the_request ''/icd/entity'' None once_401_world
        # map (\<lambda>k. retry_request ''/icd/entity'' None once_401_world
                   (''token-'' @ decimal (auth_calls (snd (ensureToken once_401_world)) + k))) [0..<1]"
    "auth_calls w' = auth_calls (snd (ensureToken once_401_world)) + 1"
    "\<forall>r. api_endpoint once_401_world (length (api_log once_401_world) + 1) = Responded r
           \<and> status r \<noteq> 401
         \<longrightarrow> apiRequest ''/icd/entity'' None once_401_world = Some (read_response r, w')"
    by (elim exE conjE)
  from w'(3) b have "apiRequest ''/icd/entity'' None once_401_world = Some (read_response ?r, w')"
    by simp
  with w'(1,2)
  have 1: "map_option fst (apiRequest ''/icd/entity'' None once_401_world) =
        Some (Inr (JStr ''second answer''))
      \<and> map_option (api_log \<circ> snd) (apiRequest ''/icd/entity'' None once_401_world) =
        Some [\<lparr>req_url = ''https://id.who.int/icd/entity'', req_params = None,
               req_authorization = ''Bearer token-0'', req_language = ''en''\<rparr>,
             \<lparr>req_url = ''https://id.who.int/icd/entity'', req_params = None,
               req_authorization = ''Bearer token-1'', req_language = ''en''\<rparr>]
      \<and> map_option (auth_calls \<circ> snd) (apiRequest ''/icd/entity'' None once_401_world) = Some 2"
    by (simp add: rr e n q0 retry_request_def digit_char_def bearer_def API_BASE_URL_def)
  have n': "accessToken revoked_world = None" "auth_calls revoked_world = 0"
      "api_log revoked_world = []"
    by (simp_all add: revoked_world_def example_world_def)
  have t': "token_endpoint revoked_world (auth_calls revoked_world) =
             Responded \<lparr>status = 200, body_text = [],
                        body_json = Inr \<lparr>access_token = ''token-0'', expires_in = 3600\<rparr>\<rparr>"
    by (simp add: revoked_world_def example_world_def grant_def)
  have e': "fst (ensureToken revoked_world) = Inr (Some ''token-0'')"
      "auth_calls (snd (ensureToken revoked_world)) = 1"
    using ensureToken_no_token_granted [OF n'(1) t'] n'(2) by (simp_all add: ok_def)
  have a': "\<forall>k<1. is_401 (api_endpoint revoked_world (length (api_log revoked_world) + k))"
    by (simp add: revoked_world_def example_world_def is_401_def answer_def)
  have d: "decimal 400 = ''400''" by code_simp
  have o: "auth_outcome revoked_world (1 + 0) =
             Inl (Error ''Authentication failed: 400 - invalid_client'')"
    by (simp add: auth_outcome_def authenticate_def revoked_world_def example_world_def ok_def d)
  have g': "grants revoked_world ?tok 1 0" by (simp add: grants_def)
  have h': "fst (ensureToken revoked_world) = Inr (Some ''token-0'') \<and> 0 < (1::nat)
            \<and> grants revoked_world ?tok (auth_calls (snd (ensureToken revoked_world))) 0
            \<and> auth_outcome revoked_world (auth_calls (snd (ensureToken revoked_world)) + 0) =
                Inl (Error ''Authentication failed: 400 - invalid_client'')"
    using e' g' o by simp
  from apiRequest_retries_every_401
         [OF a', of "''/icd/entity''" None ?tok, THEN conjunct2, THEN conjunct2, rule_format, OF h']
  obtain w2 where w2: "apiRequest ''/icd/entity'' None revoked_world =
        Some (Inl (Error ''Authentication failed: 400 - invalid_client''), w2)"
      "api_log w2 = api_log revoked_world @ the_request ''/icd/entity'' None revoked_world
         # map (\<lambda>k. retry_request ''/icd/entity'' None revoked_world
                   (''token-'' @ decimal (auth_calls (snd (ensureToken revoked_world)) + k))) [0..<0]"
    by (elim exE conjE)
  from w2 have 2: "map_option fst (apiRequest ''/icd/entity'' None revoked_world) =
       Some (Inl (Error ''Authentication failed: 400 - invalid_client''))
     \<and> map_option (length \<circ> api_log \<circ> snd) (apiRequest ''/icd/entity'' None revoked_world) = Some 1"
    by (simp add: n')
  have n'': "accessToken offline_world = None" "auth_calls offline_world = 0"
      "api_log offline_world = []"
    by (simp_all add: offline_world_def example_world_def)
  have t'': "token_endpoint offline_world (auth_calls offline_world) =
             Responded \<lparr>status = 200, body_text = [],
                        body_json = Inr \<lparr>access_token = ''token-0'', expires_in = 3600\<rparr>\<rparr>"
    by (simp add: offline_world_def example_world_def grant_def digit_char_def)
  have e'': "fst (ensureToken offline_world) = Inr (Some ''token-0'')"
    using ensureToken_no_token_granted(1) [OF n''(1) t''] by (simp add: ok_def)
  have a'': "\<forall>k<0. is_401 (api_endpoint offline_world (length (api_log offline_world) + k))"
    by simp
  have b'': "api_endpoint offline_world (length (api_log offline_world) + 0) = Rejected ''offline''"
    by (simp add: offline_world_def example_world_def)
  have g'': "grants offline_world ?tok (auth_calls (snd (ensureToken offline_world))) 0"
    by (simp add: grants_def)
  have h'': "fst (ensureToken offline_world) = Inr (Some ''token-0'')
             \<and> grants offline_world ?tok (auth_calls (snd (ensureToken offline_world))) 0"
    using e'' g'' by simp
  from apiRequest_retries_every_401
         [OF a'', of "''/icd/entity''" None ?tok, THEN conjunct2, THEN conjunct1, rule_format, OF h'']
  obtain w3 where w3: "\<forall>m. api_endpoint offline_world (length (api_log offline_world) + 0) = Rejected m
           \<longrightarrow> apiRequest ''/icd/entity'' None offline_world = Some (Inl (TypeError m), w3)"
    by (elim exE conjE)
  from w3 b'' have "apiRequest ''/icd/entity'' None offline_world = Some (Inl (TypeError ''offline''), w3)"
    by blast
  then have 3: "map_option fst (apiRequest ''/icd/entity'' None offline_world) =
       Some (Inl (TypeError ''offline''))"
    by simp
  from 1 2 3 show ?thesis by simp
qed

text \<open>
  With a token endpoint that grants every request and an API that answers every request
  with a 401, the call never returns.
\<close>

lemma apiRequest_loops_forever:
  assumes "always_granted w tok"
    and "\<forall>k. is_401 (api_endpoint w (length (api_log w) + k))"
  shows "apiRequest endpoint params w = None"
proof (rule ccontr)
  assume "apiRequest endpoint params w \<noteq> None"
  then obtain y where y: "apiRequest endpoint params w = Some y" by blast
  have "\<not> (always_granted w tok \<and> (\<forall>k. is_401 (api_endpoint w (length (api_log w) + k))))"
  proof (rule apiRequest.raw_induct [OF _ y], goal_cases)
    case (1 f endpoint params w y)
    show ?case
    proof
      assume inv: "always_granted w tok \<and> (\<forall>k. is_401 (api_endpoint w (length (api_log w) + k)))"
      obtain t w1 where e: "ensureToken w = (t, w1)" by (cases "ensureToken w")
      from ensureToken_granted [of w tok] inv e obtain token where t: "t = Inr token" by auto
      have fr: "api_endpoint w1 = api_endpoint w" "token_endpoint w1 = token_endpoint w"
          "api_log w1 = api_log w"
        using ensureToken_frame [of w] e by simp_all
      from inv have "is_401 (api_endpoint w (length (api_log w)))"
        by (metis add.right_neutral)
      then obtain r where r: "api_endpoint w (length (api_log w)) = Responded r" "status r = 401"
        by (auto simp: is_401_def split: fetch_result.splits)
      let ?w2 = "w1\<lparr>api_log := api_log w1 @
                 [\<lparr>req_url = API_BASE_URL @ endpoint, req_params = params,
                   req_authorization = bearer token, req_language = language w1\<rparr>],
                 accessToken := None\<rparr>"
      from 1(2) e t r fr have "f endpoint params ?w2 = Some y"
        by (simp add: send_def)
      from 1(1) [OF this]
      have n: "\<not> (always_granted ?w2 tok
                 \<and> (\<forall>k. is_401 (api_endpoint ?w2 (length (api_log ?w2) + k))))" .
      have "always_granted ?w2 tok"
        using inv fr by (simp add: always_granted_def)
      moreover have "\<forall>k. is_401 (api_endpoint ?w2 (length (api_log ?w2) + k))"
      proof
        fix k
        from inv have "is_401 (api_endpoint w (length (api_log w) + Suc k))" by blast
        then show "is_401 (api_endpoint ?w2 (length (api_log ?w2) + k))"
          using fr by simp
      qed
      ultimately show False using n by blast
    qed
  qed
  with assms show False by blast
qed

section \<open>Outcomes of the client operations and of the handlers\<close>







lemma children_of_total:
  assumes "looked_up = Some (r, w1)" and "answers_eventually w1"
  shows "\<exists>cs w'. children_of looked_up = Some (cs, w') \<and> answers_eventually w'"
proof (cases r)
  case (Inl e)
  with assms show ?thesis by (simp add: children_of_def)
next
  case (Inr found)
  show ?thesis
  proof (cases found)
    case None
    with Inr assms show ?thesis by (simp add: children_of_def)
  next
    case (Some entity)
    show ?thesis
    proof (cases "e_children entity")
      case None
      with Some Inr assms show ?thesis by (simp add: children_of_def)
    next
      case (Some uris)
      from children_loop_total [OF assms(2), of "take 20 uris" "[]"] \<open>found = Some entity\<close> Inr Some
        assms(1)
      show ?thesis by (simp add: children_of_def)
    qed
  qed
qed


lemma get_chapters_total:
  assumes "answers_eventually w"
  shows "\<exists>r w'. get_chapters endpoint w = Some (r, w')"
proof -
  from apiRequest_total [OF assms, of endpoint None]
  obtain r w1 where a: "apiRequest endpoint None w = Some (r, w1)" "answers_eventually w1" by blast
  show ?thesis
  proof (cases r)
    case (Inl e)
    with a show ?thesis by (simp add: get_chapters_def)
  next
    case (Inr data)
    show ?thesis
    proof (cases "\<exists>child uris. js_get data ''child'' = Some child \<and> js_truthy child
                    \<and> for_of child = Some uris \<and> data \<noteq> JNull")
      case True
      then obtain child uris where c: "js_get data ''child'' = Some child" "js_truthy child"
          "for_of child = Some uris" "data \<noteq> JNull" by blast
      from chapters_loop_total [OF a(2), of uris "[]"] a(1) Inr c show ?thesis
        by (auto simp: get_chapters_def)
    next
      case False
      with a(1) Inr show ?thesis
        by (auto simp: get_chapters_def split: option.split)
    qed
  qed
qed

lemma searchICD11_total:
  assumes "answers_eventually w"
  shows "\<exists>r w'. searchICD11 query maxResults chapterFilter w = Some (r, w')"
proof -
  from apiRequest_total [OF assms, of "''/icd/release/11/'' @ icd11Release w @ ''/mms/search''"
      "Some (search_params query chapterFilter)"]
  show ?thesis
    by (auto simp: searchICD11_def split: sum.split)
qed

lemma handleLookup_total:
  assumes "answers_eventually w"
  shows "\<exists>r w'. handleLookup code version w = Some (r, w')"
  using getICD10Code_total [OF assms, of code] getICD11Code_total [OF assms, of code]
  by (auto simp: handleLookup_def split: option.split sum.split)

lemma handleSearch_total:
  assumes "answers_eventually w"
  shows "\<exists>r w'. handleSearch query maxResults cf w = Some (r, w')"
  using searchICD11_total [OF assms, of query "Some maxResults" cf]
  by (auto simp: handleSearch_def split: sum.split)

lemma handleChapters_total:
  assumes "answers_eventually w"
  shows "\<exists>r w'. handleChapters version w = Some (r, w')"
  using get_chapters_total [OF assms, of "''/icd/release/10/'' @ icd10Release w"]
    get_chapters_total [OF assms, of "''/icd/release/11/'' @ icd11Release w @ ''/mms''"]
  by (auto simp: handleChapters_def getICD10Chapters_def getICD11Chapters_def split: sum.split)

lemma children_total:
  assumes "answers_eventually w"
  shows "\<exists>r w'. (if version = ''10'' then getICD10Children code w else getICD11Children code w)
                  = Some (r, w')"
proof -
  from getICD10Code_total [OF assms, of code] obtain r w1
    where a: "getICD10Code code w = Some (Inr r, w1)" "answers_eventually w1" by blast
  from getICD11Code_total [OF assms, of code] obtain r' w1'
    where b: "getICD11Code code w = Some (r', w1')" "answers_eventually w1'" by blast
  from children_of_total [OF a] children_of_total [OF b] show ?thesis
    by (auto simp: getICD10Children_def getICD11Children_def)
qed

lemma handleChildren_total:
  assumes "answers_eventually w"
  shows "\<exists>r w'. handleChildren code version w = Some (r, w')"
  using children_total [OF assms, of version code]
  by (auto simp: handleChildren_def split: sum.split)

lemma handleApi_total:
  assumes "answers_eventually w"
  shows "\<exists>r w'. handleApi path w = Some (r, w')"
  using apiRequest_total [OF assms, of path None]
  by (auto simp: handleApi_def split: sum.split)

lemma dispatch_total:
  assumes "answers_eventually w"
  shows "\<exists>r w'. dispatch p w = Some (r, w')"
  using handleLookup_total [OF assms] handleSearch_total [OF assms] handleChapters_total [OF assms]
    handleChildren_total [OF assms] handleApi_total [OF assms]
  by (simp add: dispatch_def Let_def split: option.split)

lemma handleAction_total:
  assumes "answers_eventually w"
  shows "\<exists>r w'. handleAction p w = Some (Inr r, w')"
proof -
  from dispatch_total [OF assms, of p] obtain r w' where "dispatch p w = Some (r, w')" by blast
  then show ?thesis by (cases r) (simp_all add: handleAction_def)
qed

lemma handleAction_no_error: "handleAction p w \<noteq> Some (Inl e, w')"
  by (auto simp: handleAction_def split: option.splits sum.splits prod.splits)

section \<open>The dispatcher's catch\<close>

text \<open>
  C5, as stated, fails where a request never comes to an end: when the API answers every
  request with a 401, \<open>apiRequest\<close> retries for ever, and an api request to the
  dispatcher never returns, neither a result nor an exception.
\<close>

theorem handleAction_endless_401_counterexample:
  "handleAction ((example_params ''api'')\<lparr>p_path := Some ''/icd/entity''\<rparr>) always_401_world = None"
proof -
  have g: "always_granted always_401_world (\<lambda>j. ''token-'' @ decimal j)"
    by (simp add: always_granted_def always_401_world_def example_world_def grant_def ok_def)
  have a: "\<forall>k. is_401 (api_endpoint always_401_world (length (api_log always_401_world) + k))"
    by (simp add: always_401_world_def example_world_def is_401_def answer_def)
  from apiRequest_loops_forever [OF g a, of "''/icd/entity''" None]
  show ?thesis
    by (simp add: handleAction_def dispatch_def handleApi_def example_params_def startsWith_def)
qed

text \<open>
  C5, amended. \<open>handleAction\<close> never lets an exception escape: for every parameter record
  and every state it does not reject, and whatever the body of its \<^verbatim>\<open>try\<close> throws becomes
  the error-flagged result with the text \<^verbatim>\<open>Error: \<close> followed by the message. This holds
  for the validation failures: a lookup or children request without a code, a search
  without a query and an api request without a path get their error-flagged result, and
  the state is returned as it was. \<open>handleAction\<close> returns a result whenever the API does
  not answer 401 for ever.
\<close>

theorem handleAction_catches_everything:
  "(\<forall>e w'. handleAction p w \<noteq> Some (Inl e, w'))
   \<and> (\<forall>e w'. dispatch p w = Some (Inl e, w')
               \<longrightarrow> handleAction p w =
                     Some (Inr \<lparr>content = [''Error: '' @ message e], isError = Some True\<rparr>, w'))
   \<and> ((p_action p = ''lookup'' \<or> p_action p = ''children'')
        \<and> (p_code p = None \<or> p_code p = Some [])
        \<longrightarrow> handleAction p w =
              Some (Inr \<lparr>content = [''Error: code required for '' @ p_action p],
                         isError = Some True\<rparr>, w))
   \<and> (p_action p = ''search'' \<and> (p_query p = None \<or> p_query p = Some [])
        \<longrightarrow> handleAction p w =
              Some (Inr \<lparr>content = [''Error: query required for search''],
                         isError = Some True\<rparr>, w))
   \<and> (p_action p = ''api'' \<and> (p_path p = None \<or> p_path p = Some [])
        \<longrightarrow> handleAction p w =
              Some (Inr \<lparr>content = [''Error: path required for api''],
                         isError = Some True\<rparr>, w))
   \<and> (answers_eventually w \<longrightarrow> (\<exists>result w'. handleAction p w = Some (Inr result, w')))"
proof (intro conjI allI impI)
  fix e w'
  show "handleAction p w \<noteq> Some (Inl e, w')" by (rule handleAction_no_error)
next
  fix e w'
  assume "dispatch p w = Some (Inl e, w')"
  then show "handleAction p w =
               Some (Inr \<lparr>content = [''Error: '' @ message e], isError = Some True\<rparr>, w')"
    by (simp add: handleAction_def)
next
  assume "(p_action p = ''lookup'' \<or> p_action p = ''children'')
          \<and> (p_code p = None \<or> p_code p = Some [])"
  then show "handleAction p w =
               Some (Inr \<lparr>content = [''Error: code required for '' @ p_action p],
                          isError = Some True\<rparr>, w)"
    by (auto simp: handleAction_def dispatch_def)
next
  assume "p_action p = ''search'' \<and> (p_query p = None \<or> p_query p = Some [])"
  then show "handleAction p w =
               Some (Inr \<lparr>content = [''Error: query required for search''],
                          isError = Some True\<rparr>, w)"
    by (auto simp: handleAction_def dispatch_def)
next
  assume "p_action p = ''api'' \<and> (p_path p = None \<or> p_path p = Some [])"
  then show "handleAction p w =
               Some (Inr \<lparr>content = [''Error: path required for api''],
                          isError = Some True\<rparr>, w)"
    by (auto simp: handleAction_def dispatch_def)
next
  assume "answers_eventually w"
  then show "\<exists>result w'. handleAction p w = Some (Inr result, w')"
    by (rule handleAction_total)
qed

theorem handleAction_catches_everything_witness:
  "handleAction (example_params ''lookup'') offline_world =
     Some (Inr \<lparr>content = [''Error: code required for lookup''], isError = Some True\<rparr>,
           offline_world)
   \<and> map_option fst (handleAction (example_params ''chapters'') offline_world) =
       Some (Inr \<lparr>content = [''Error: offline''], isError = Some True\<rparr>)
   \<and> (\<exists>result w'. handleAction ((example_params ''lookup'')\<lparr>p_code := Some ''1A00''\<rparr>) leaf_world =
         Some (Inr result, w'))"
proof -
  have "map_option fst (dispatch (example_params ''chapters'') offline_world) =
          Some (Inl (TypeError ''offline''))"
    by code_simp
  then obtain w' where d: "dispatch (example_params ''chapters'') offline_world =
      Some (Inl (TypeError ''offline''), w')"
    by (cases "dispatch (example_params ''chapters'') offline_world") auto
  have ae: "answers_eventually leaf_world"
    by (simp add: answers_eventually_def leaf_world_def example_world_def is_401_def answer_def)
  from handleAction_catches_everything [of "example_params ''lookup''" offline_world]
  have 1: "handleAction (example_params ''lookup'') offline_world =
     Some (Inr \<lparr>content = [''Error: code required for lookup''], isError = Some True\<rparr>,
           offline_world)"
    by (simp add: example_params_def)
  from handleAction_catches_everything [of "example_params ''chapters''" offline_world] d
  have 2: "map_option fst (handleAction (example_params ''chapters'') offline_world) =
       Some (Inr \<lparr>content = [''Error: offline''], isError = Some True\<rparr>)"
    by simp
  from handleAction_catches_everything [of "(example_params ''lookup'')\<lparr>p_code := Some ''1A00''\<rparr>" leaf_world] ae
  have 3: "\<exists>result w'. handleAction ((example_params ''lookup'')\<lparr>p_code := Some ''1A00''\<rparr>) leaf_world =
         Some (Inr result, w')"
    by blast
  from 1 2 3 show ?thesis by blast
qed

section \<open>Lookups that find nothing\<close>




section \<open>Child listings\<close>




section \<open>Search results\<close>

lemma search_loop_results:
  "JNull \<notin> set items \<Longrightarrow>
     search_loop items acc = Inr (acc @ map (projr \<circ> search_hit) items)"
proof (induction items arbitrary: acc)
  case Nil
  then show ?case by simp
next
  case (Cons item items)
  from Cons.prems obtain r where r: "search_hit item = Inr r"
    by (auto simp: search_hit_def)
  from Cons.prems have "JNull \<notin> set items" by simp
  from Cons.IH [OF this, of "acc @ [r]"] r show ?case by simp
qed




lemma set_slice0: "set (slice0 n xs) \<subseteq> set xs"
  by (auto simp: slice0_def dest: in_set_takeD)

lemma searchICD11_array:
  assumes "apiRequest (''/icd/release/11/'' @ icd11Release w @ ''/mms/search'')
             (Some (search_params query chapterFilter)) w = Some (Inr data, w1)"
    and "js_get data ''destinationEntities'' = Some (JArr entities)
         \<or> \<not> truthy (js_get data ''destinationEntities'') \<and> entities = []"
    and "data \<noteq> JNull"
    and "JNull \<notin> set entities"
  shows "searchICD11 query (Some n) chapterFilter w =
           Some (Inr (map (projr \<circ> search_hit) (slice0 n entities)), w1)"
proof -
  from assms(2) have "or_else (js_get data ''destinationEntities'') (JArr []) = JArr entities"
    by (cases "js_get data ''destinationEntities''") (auto simp: or_else_def)
  then have s: "sliced_entities data n = Inr (slice0 n entities)"
    by (auto simp: sliced_entities_def slice0_def)
  from assms(4) set_slice0 [of n entities] have "JNull \<notin> set (slice0 n entities)" by blast
  from search_loop_results [OF this, of "[]"] s assms(1,3) show ?thesis
    by (simp add: searchICD11_def)
qed




section \<open>The default maximum of a search\<close>

lemma slice0_10: "slice0 10 xs = take 10 xs"
  by (simp add: slice0_def)

text \<open>
  A caller can get a search with no results out of three hits: \<open>max_results = -3\<close> is truthy,
  so it reaches \<^verbatim>\<open>entities.slice(0, -3)\<close>, which is empty.
\<close>

theorem negative_max_results_counterexample:
  "map_option fst
     (handleAction ((example_params ''search'')\<lparr>p_query := Some ''cholera'',
                                                  p_max_results := Some (- 3)\<rparr>) search_world) =
     Some (Inr \<lparr>content = [''No ICD-11 codes found for '' @ [CHR 0x27] @ ''cholera'' @ [CHR 0x27]
                            @ ''. Try different search terms.''],
                isError = None\<rparr>)
   \<and> map_option fst (searchICD11 ''cholera'' (Some (- 3)) None search_world) = Some (Inr [])"
  by (rule conjI; code_simp)

text \<open>
  C10. A search request with \<open>max_results = 0\<close> is dispatched with the maximum 10, exactly as
  the same request without \<open>max_results\<close>: \<^verbatim>\<open>params.max_results || 10\<close> takes 0 for absent.
  When the service answers with an array of hits, none of them \<^verbatim>\<open>null\<close> (or with no
  \<^verbatim>\<open>destinationEntities\<close>), the search returns the results made from the first 10 hits, all
  of them when there are fewer, and the dispatcher returns their numbered list; it reports
  that nothing was found only when the service returned no hit.
\<close>

theorem zero_max_results_is_default:
  assumes "p_action p = ''search''" and "p_query p = Some q" and "q \<noteq> []"
    and "str_or (p_version p) ''11'' \<noteq> ''10''" and "p_max_results p = Some 0"
    and "apiRequest (''/icd/release/11/'' @ icd11Release w @ ''/mms/search'')
           (Some (search_params q (p_chapter p))) w = Some (Inr data, w1)"
    and "js_get data ''destinationEntities'' = Some (JArr entities)
         \<or> \<not> truthy (js_get data ''destinationEntities'') \<and> entities = []"
    and "data \<noteq> JNull"
    and "JNull \<notin> set entities"
  shows "dispatch p w = handleSearch q 10 (p_chapter p) w
       \<and> handleAction p w = handleAction (p\<lparr>p_max_results := None\<rparr>) w
       \<and> searchICD11 q (Some 10) (p_chapter p) w =
           Some (Inr (map (projr \<circ> search_hit) (take 10 entities)), w1)
       \<and> handleAction p w =
           Some (Inr \<lparr>content =
                   [if entities = []
                    then ''No ICD-11 codes found for '' @ [CHR 0x27] @ q @ [CHR 0x27]
                         @ ''. Try different search terms.''
                    else join ''\<newline>''
                      ([''**ICD-11 Search Results for '' @ [CHR 0x27] @ q @ [CHR 0x27]
                        @ '':**\<newline>'']
                       @ map (\<lambda>(i, result). decimal (i + 1) @ ''. **'' @ js_String (sr_code result)
                                               @ ''**: '' @ js_String (sr_title result))
                           (enumerate 0 (map (projr \<circ> search_hit) (take 10 entities)))
                       @ [''\<newline>Use {\"action\": \"lookup\", \"code\": \"...\"} for full details.''])],
                 isError = None\<rparr>, w1)"
proof -
  have d: "dispatch p w = handleSearch q 10 (p_chapter p) w"
    using assms(1-5) by (simp add: dispatch_def)
  have a: "handleAction p w = handleAction (p\<lparr>p_max_results := None\<rparr>) w"
    using assms(1-5) by (simp add: handleAction_def dispatch_def)
  have s: "searchICD11 q (Some 10) (p_chapter p) w =
             Some (Inr (map (projr \<circ> search_hit) (take 10 entities)), w1)"
    using searchICD11_array [OF assms(6-9), of 10] by (simp add: slice0_10)
  have h: "handleAction p w =
           Some (Inr \<lparr>content =
                   [if entities = []
                    then ''No ICD-11 codes found for '' @ [CHR 0x27] @ q @ [CHR 0x27]
                         @ ''. Try different search terms.''
                    else join ''\<newline>''
                      ([''**ICD-11 Search Results for '' @ [CHR 0x27] @ q @ [CHR 0x27]
                        @ '':**\<newline>'']
                       @ map (\<lambda>(i, result). decimal (i + 1) @ ''. **'' @ js_String (sr_code result)
                                               @ ''**: '' @ js_String (sr_title result))
                           (enumerate 0 (map (projr \<circ> search_hit) (take 10 entities)))
                       @ [''\<newline>Use {\"action\": \"lookup\", \"code\": \"...\"} for full details.''])],
                 isError = None\<rparr>, w1)"
    unfolding handleAction_def d handleSearch_def s by (cases entities) simp_all
  from d a s h show ?thesis by blast
qed

theorem zero_max_results_is_default_witness:
  "map_option fst
     (handleAction ((example_params ''search'')\<lparr>p_query := Some ''cholera'',
                                                  p_max_results := Some 0\<rparr>) crowded_world) =
     Some (Inr \<lparr>content =
             [''**ICD-11 Search Results for '' @ [CHR 0x27] @ ''cholera'' @ [CHR 0x27] @ '':**\<newline>\<newline>1. **H0**: hit\<newline>2. **H1**: hit\<newline>3. **H2**: hit\<newline>4. **H3**: hit\<newline>5. **H4**: hit\<newline>6. **H5**: hit\<newline>7. **H6**: hit\<newline>8. **H7**: hit\<newline>9. **H8**: hit\<newline>10. **H9**: hit\<newline>\<newline>Use {\"action\": \"lookup\", \"code\": \"...\"} for full details.''],
             isError = None\<rparr>)
   \<and> map_option fst
       (handleAction ((example_params ''search'')\<lparr>p_query := Some ''cholera''\<rparr>) crowded_world) =
     map_option fst
       (handleAction ((example_params ''search'')\<lparr>p_query := Some ''cholera'',
                                                    p_max_results := Some 0\<rparr>) crowded_world)
   \<and> length twelve_hits = 12"
proof -
  let ?p = "(example_params ''search'')\<lparr>p_query := Some ''cholera'', p_max_results := Some 0\<rparr>"
  let ?data = "JObj [(''destinationEntities'', JArr twelve_hits)]"
  let ?req = "apiRequest (''/icd/release/11/'' @ icd11Release crowded_world @ ''/mms/search'')
                (Some (search_params ''cholera'' (p_chapter ?p))) crowded_world"
  have "map_option fst ?req = Some (Inr ?data)"
    by code_simp
  then have r: "?req = Some (Inr ?data, snd (the ?req))"
    by (cases ?req) auto
  have p: "p_action ?p = ''search''" "p_query ?p = Some ''cholera''" "''cholera'' \<noteq> []"
    "str_or (p_version ?p) ''11'' \<noteq> ''10''" "p_max_results ?p = Some 0"
    by (simp_all add: example_params_def)
  have b: "js_get ?data ''destinationEntities'' = Some (JArr twelve_hits)
           \<or> \<not> truthy (js_get ?data ''destinationEntities'') \<and> twelve_hits = []"
    "?data \<noteq> JNull" "JNull \<notin> set twelve_hits"
    by (auto simp: twelve_hits_def)
  have n: "twelve_hits \<noteq> []" "length twelve_hits = 12"
    by (simp_all add: twelve_hits_def)
  have e: "?p\<lparr>p_max_results := None\<rparr> = (example_params ''search'')\<lparr>p_query := Some ''cholera''\<rparr>"
    by (simp add: example_params_def)
  have t: "join ''\<newline>''
             ([''**ICD-11 Search Results for '' @ [CHR 0x27] @ ''cholera'' @ [CHR 0x27]
               @ '':**\<newline>'']
              @ map (\<lambda>(i, result). decimal (i + 1) @ ''. **'' @ js_String (sr_code result)
                                      @ ''**: '' @ js_String (sr_title result))
                  (enumerate 0 (map (projr \<circ> search_hit) (take 10 twelve_hits)))
              @ [''\<newline>Use {\"action\": \"lookup\", \"code\": \"...\"} for full details.'']) =
           ''**ICD-11 Search Results for '' @ [CHR 0x27] @ ''cholera'' @ [CHR 0x27] @ '':**\<newline>\<newline>1. **H0**: hit\<newline>2. **H1**: hit\<newline>3. **H2**: hit\<newline>4. **H3**: hit\<newline>5. **H4**: hit\<newline>6. **H5**: hit\<newline>7. **H6**: hit\<newline>8. **H7**: hit\<newline>9. **H8**: hit\<newline>10. **H9**: hit\<newline>\<newline>Use {\"action\": \"lookup\", \"code\": \"...\"} for full details.''"
    by code_simp
  note z = zero_max_results_is_default [OF p r b]
  have x: "handleAction ?p crowded_world =
             handleAction (?p\<lparr>p_max_results := None\<rparr>) crowded_world"
    by (rule z [THEN conjunct2, THEN conjunct1])
  have y: "handleAction ?p crowded_world =
           Some (Inr \<lparr>content =
             [''**ICD-11 Search Results for '' @ [CHR 0x27] @ ''cholera'' @ [CHR 0x27] @ '':**\<newline>\<newline>1. **H0**: hit\<newline>2. **H1**: hit\<newline>3. **H2**: hit\<newline>4. **H3**: hit\<newline>5. **H4**: hit\<newline>6. **H5**: hit\<newline>7. **H6**: hit\<newline>8. **H7**: hit\<newline>9. **H8**: hit\<newline>10. **H9**: hit\<newline>\<newline>Use {\"action\": \"lookup\", \"code\": \"...\"} for full details.''],
             isError = None\<rparr>, snd (the ?req))"
    using z [THEN conjunct2, THEN conjunct2, THEN conjunct2] n(1) unfolding t by simp
  have x': "handleAction ((example_params ''search'')\<lparr>p_query := Some ''cholera''\<rparr>) crowded_world =
             handleAction ?p crowded_world"
    using x unfolding e by simp
  show ?thesis unfolding x' unfolding y using n(2) by simp
qed

end
